theory Spec2Isabelle
  imports Main "HOL-Library.Word"
begin

unbundle bit_operations_syntax

section \<open>Go values used by the checker\<close>

text \<open>
  A byte slice that the program builds itself, or keeps in a field of a record, is
  modelled by the list of its visible bytes; a nil slice and an empty slice are both the
  empty list. The keys built by the encoders below come from \<^verbatim>\<open>make\<close> and from an
  \<^verbatim>\<open>append\<close> that fills the capacity exactly, so their capacity is their length and a
  slice expression on them panics as soon as its bound exceeds the length. A value
  handed to a value decoder comes from the index engine with a capacity of its own; it
  is modelled further down with the bytes that lie beyond its length.

  A Go \<^verbatim>\<open>error\<close> is represented by the text that \<^verbatim>\<open>%v\<close> prints for it;
  \<open>None\<close> is the nil error.
\<close>

type_synonym byte = "8 word"
type_synonym bytes = "byte list"
type_synonym uint64 = "64 word"
type_synonym uint32 = "32 word"
type_synonym go_error = string

text \<open>A call either panics (a run-time bounds failure) or returns.\<close>

datatype 'a outcome = Panic | Ok 'a

fun and_then :: "'a outcome \<Rightarrow> ('a \<Rightarrow> 'b outcome) \<Rightarrow> 'b outcome" where
  "and_then Panic f = Panic"
| "and_then (Ok x) f = f x"

text \<open>\<^verbatim>\<open>make([]byte, n)\<close>, \<^verbatim>\<open>copy(dst, src)\<close> and the slice expressions
  \<^verbatim>\<open>b[lo:hi]\<close>, \<^verbatim>\<open>b[lo:]\<close>, \<^verbatim>\<open>b[:hi]\<close>.\<close>

definition make_bytes :: "nat \<Rightarrow> bytes" where
  "make_bytes n = replicate n 0"

definition copy_bytes :: "bytes \<Rightarrow> bytes \<Rightarrow> bytes" where
  "copy_bytes dst src = take (length dst) src @ drop (length src) dst"

definition slice :: "bytes \<Rightarrow> nat \<Rightarrow> nat \<Rightarrow> bytes outcome" where
  "slice b lo hi = (if lo \<le> hi \<and> hi \<le> length b then Ok (take (hi - lo) (drop lo b)) else Panic)"

definition slice_from :: "bytes \<Rightarrow> nat \<Rightarrow> bytes outcome" where
  "slice_from b lo = (if lo \<le> length b then Ok (drop lo b) else Panic)"

definition slice_to :: "bytes \<Rightarrow> nat \<Rightarrow> bytes outcome" where
  "slice_to b hi = (if hi \<le> length b then Ok (take hi b) else Panic)"

text \<open>\<^verbatim>\<open>copy(b[lo:hi], src)\<close>: the bytes of \<open>b\<close> at \<open>lo..<hi\<close> are overwritten by
  the prefix of \<open>src\<close> that fits; used only with bounds inside \<open>b\<close>.\<close>

definition copy_at :: "bytes \<Rightarrow> nat \<Rightarrow> nat \<Rightarrow> bytes \<Rightarrow> bytes" where
  "copy_at b lo hi src = take lo b @ copy_bytes (take (hi - lo) (drop lo b)) src @ drop hi b"

text \<open>\<^verbatim>\<open>binary.BigEndian\<close>: \<^verbatim>\<open>PutUint64\<close> writes the eight bytes of \<open>v\<close>, most
  significant first; \<^verbatim>\<open>Uint64\<close> and \<^verbatim>\<open>Uint32\<close> first touch the last byte they
  need (\<^verbatim>\<open>_ = b[7]\<close>), which panics on a shorter slice.\<close>

definition PutUint64 :: "uint64 \<Rightarrow> bytes" where
  "PutUint64 v =
     [ucast (drop_bit 56 v), ucast (drop_bit 48 v), ucast (drop_bit 40 v), ucast (drop_bit 32 v),
      ucast (drop_bit 24 v), ucast (drop_bit 16 v), ucast (drop_bit 8 v), ucast v]"

definition Uint64 :: "bytes \<Rightarrow> uint64 outcome" where
  "Uint64 b =
     (if length b < 8 then Panic
      else Ok (ucast (b ! 7) OR push_bit 8 (ucast (b ! 6)) OR push_bit 16 (ucast (b ! 5))
               OR push_bit 24 (ucast (b ! 4)) OR push_bit 32 (ucast (b ! 3))
               OR push_bit 40 (ucast (b ! 2)) OR push_bit 48 (ucast (b ! 1))
               OR push_bit 56 (ucast (b ! 0))))"

definition Uint32 :: "bytes \<Rightarrow> uint32 outcome" where
  "Uint32 b =
     (if length b < 4 then Panic
      else Ok (ucast (b ! 3) OR push_bit 8 (ucast (b ! 2)) OR push_bit 16 (ucast (b ! 1))
               OR push_bit 24 (ucast (b ! 0))))"

text \<open>Writing into a sub-slice: \<^verbatim>\<open>PutUint64(b[lo:lo+8], v)\<close> and \<^verbatim>\<open>copy(b[lo:hi], src)\<close>
  replace bytes of \<open>b\<close> in place; both are used by the source only with bounds inside \<open>b\<close>.\<close>

definition PutUint64_at :: "bytes \<Rightarrow> nat \<Rightarrow> uint64 \<Rightarrow> bytes" where
  "PutUint64_at b lo v = take lo b @ PutUint64 v @ drop (lo + 8) b"

text \<open>
  A slice with spare capacity: its visible bytes, and the bytes of the backing array
  between its length and its capacity. Go checks the upper bound of a slice expression
  \<^verbatim>\<open>s[lo:hi]\<close> against the capacity, not the length, so the result may expose bytes
  beyond the length; \<^verbatim>\<open>s[lo:]\<close> takes the length as its upper bound, so \<open>lo\<close> may not
  exceed the length. Indexing, \<^verbatim>\<open>len\<close> and \<^verbatim>\<open>copy\<close> see the visible bytes only.
\<close>

record value_slice =
  visible :: bytes
  beyond :: bytes

definition cap_of :: "value_slice \<Rightarrow> nat" where
  "cap_of s = length (visible s) + length (beyond s)"

definition reslice :: "value_slice \<Rightarrow> nat \<Rightarrow> nat \<Rightarrow> value_slice outcome" where
  "reslice s lo hi =
     (if lo \<le> hi \<and> hi \<le> cap_of s
      then Ok \<lparr>visible = take (hi - lo) (drop lo (visible s @ beyond s)),
              beyond = drop hi (visible s @ beyond s)\<rparr>
      else Panic)"

definition reslice_from :: "value_slice \<Rightarrow> nat \<Rightarrow> value_slice outcome" where
  "reslice_from s lo =
     (if lo \<le> length (visible s) then Ok \<lparr>visible = drop lo (visible s), beyond = beyond s\<rparr>
      else Panic)"

definition reslice_to :: "value_slice \<Rightarrow> nat \<Rightarrow> value_slice outcome" where
  "reslice_to s hi = reslice s 0 hi"

section \<open>The record passed through every codec\<close>

text \<open>
  \<^verbatim>\<open>shed.Item\<close>, restricted to the fields the checker's codecs touch. The signed
  fields (\<^verbatim>\<open>int64\<close> timestamps) are kept as their 64-bit patterns: the conversions
  \<^verbatim>\<open>uint64(x)\<close> and \<^verbatim>\<open>int64(x)\<close> of the source do not change the bits.
\<close>

record item =
  Address :: bytes
  BinID :: uint64
  StoreTimestamp :: uint64
  AccessTimestamp :: uint64
  BatchID :: bytes
  Index :: bytes
  Timestamp :: bytes
  Sig :: bytes
  Location :: bytes
  Tag :: uint32
  PinCounter :: uint64

definition zero_item :: item where
  "zero_item = \<lparr>Address = [], BinID = 0, StoreTimestamp = 0, AccessTimestamp = 0, BatchID = [],
     Index = [], Timestamp = [], Sig = [], Location = [], Tag = 0, PinCounter = 0\<rparr>"

text \<open>
  Package \<^verbatim>\<open>postage\<close> is not part of the repository: its constants and the stamp
  decoder are parameters.
\<close>

record stamp =
  stampBatchID :: bytes
  stampIndex :: bytes
  stampTimestamp :: bytes
  stampSig :: bytes

record postage =
  StampSize :: nat
  IndexSize :: nat
  UnmarshalBinary :: "bytes \<Rightarrow> go_error + stamp"

definition headerSize :: "postage \<Rightarrow> nat" where
  "headerSize pk = 16 + StampSize pk"

section \<open>The eight index codecs\<close>

text \<open>Every \<^verbatim>\<open>EncodeKey\<close> of the source returns a nil error, so the model returns the
  key alone. Every \<^verbatim>\<open>DecodeKey\<close> returns a nil error unless it panics. A
  \<^verbatim>\<open>DecodeValue\<close> returns the record together with its error. The parameter
  \<^verbatim>\<open>fields\<close> of the source is written \<open>flds\<close>, and \<^verbatim>\<open>value\<close> is written \<open>val\<close>.
  A slice stored in a field of the decoded record is kept as its visible bytes.\<close>

subsection \<open>retrievalData: Address -> BinID, StoreTimestamp, stamp, Location\<close>

definition retrievalData_EncodeKey :: "item \<Rightarrow> bytes" where
  "retrievalData_EncodeKey flds = Address flds"

definition retrievalData_DecodeKey :: "bytes \<Rightarrow> item outcome" where
  "retrievalData_DecodeKey key = Ok (zero_item\<lparr>Address := key\<rparr>)"

definition retrievalData_DecodeValue :: "postage \<Rightarrow> item \<Rightarrow> value_slice \<Rightarrow> (item \<times> go_error option) outcome" where
  "retrievalData_DecodeValue pk keyItem val =
     and_then (reslice val 8 16) (\<lambda>b1.
     and_then (Uint64 (visible b1)) (\<lambda>ts.
     and_then (reslice_to val 8) (\<lambda>b2.
     and_then (Uint64 (visible b2)) (\<lambda>bin.
     and_then (reslice val 16 (headerSize pk)) (\<lambda>sb.
       (let e = zero_item\<lparr>StoreTimestamp := ts, BinID := bin\<rparr> in
        case UnmarshalBinary pk (visible sb) of
          Inl err \<Rightarrow> Ok (e, Some err)
        | Inr st \<Rightarrow>
            and_then (reslice_from val (headerSize pk)) (\<lambda>loc.
              Ok (e\<lparr>BatchID := stampBatchID st, Index := stampIndex st,
                     Timestamp := stampTimestamp st, Sig := stampSig st,
                     Location := visible loc\<rparr>, None))))))))"

subsection \<open>retrievalAccess: Address -> AccessTimestamp\<close>

definition retrievalAccess_EncodeKey :: "item \<Rightarrow> bytes" where
  "retrievalAccess_EncodeKey flds = Address flds"

definition retrievalAccess_DecodeKey :: "bytes \<Rightarrow> item outcome" where
  "retrievalAccess_DecodeKey key = Ok (zero_item\<lparr>Address := key\<rparr>)"

definition retrievalAccess_DecodeValue :: "item \<Rightarrow> value_slice \<Rightarrow> (item \<times> go_error option) outcome" where
  "retrievalAccess_DecodeValue keyItem val =
     and_then (Uint64 (visible val)) (\<lambda>ts. Ok (zero_item\<lparr>AccessTimestamp := ts\<rparr>, None))"

subsection \<open>pull: PO, BinID -> Address, BatchID\<close>

text \<open>The assignment of the first key byte is commented out in the source
  (\<^verbatim>\<open>// key[0] = db.po(swarm.NewAddress(fields.Address))\<close>): the byte stays as
  \<^verbatim>\<open>make\<close> left it.\<close>

definition pull_EncodeKey :: "item \<Rightarrow> bytes" where
  "pull_EncodeKey flds = PutUint64_at (make_bytes 9) 1 (BinID flds)"

definition pull_DecodeKey :: "bytes \<Rightarrow> item outcome" where
  "pull_DecodeKey key =
     and_then (slice key 1 9) (\<lambda>b.
     and_then (Uint64 b) (\<lambda>bin. Ok (zero_item\<lparr>BinID := bin\<rparr>)))"

definition pull_DecodeValue :: "item \<Rightarrow> value_slice \<Rightarrow> (item \<times> go_error option) outcome" where
  "pull_DecodeValue keyItem val =
     and_then (reslice_to val 32) (\<lambda>a.
     and_then (reslice val 32 64) (\<lambda>b.
       Ok (zero_item\<lparr>Address := visible a, BatchID := visible b\<rparr>, None)))"

subsection \<open>push: StoreTimestamp, Address -> Tag\<close>

definition push_EncodeKey :: "item \<Rightarrow> bytes" where
  "push_EncodeKey flds =
     (let key = make_bytes 40;
          key = PutUint64_at key 0 (StoreTimestamp flds)
      in copy_at key 8 (length key) (Address flds))"

definition push_DecodeKey :: "bytes \<Rightarrow> item outcome" where
  "push_DecodeKey key =
     and_then (slice_from key 8) (\<lambda>a.
     and_then (slice_to key 8) (\<lambda>b.
     and_then (Uint64 b) (\<lambda>ts. Ok (zero_item\<lparr>Address := a, StoreTimestamp := ts\<rparr>))))"

definition push_DecodeValue :: "item \<Rightarrow> value_slice \<Rightarrow> (item \<times> go_error option) outcome" where
  "push_DecodeValue keyItem val =
     (if length (visible val) = 4
      then and_then (Uint32 (visible val)) (\<lambda>t. Ok (zero_item\<lparr>Tag := t\<rparr>, None))
      else Ok (zero_item, None))"

subsection \<open>gc: AccessTimestamp, BinID, Address -> BatchID, Index\<close>

definition gc_EncodeKey :: "item \<Rightarrow> bytes" where
  "gc_EncodeKey flds =
     (let b = make_bytes 16;
          b = PutUint64_at b 0 (AccessTimestamp flds);
          b = PutUint64_at b 8 (BinID flds)
      in b @ Address flds)"

definition gc_DecodeKey :: "bytes \<Rightarrow> item outcome" where
  "gc_DecodeKey key =
     and_then (slice_to key 8) (\<lambda>b1.
     and_then (Uint64 b1) (\<lambda>ts.
     and_then (slice key 8 16) (\<lambda>b2.
     and_then (Uint64 b2) (\<lambda>bin.
     and_then (slice_from key 16) (\<lambda>a.
       Ok (zero_item\<lparr>AccessTimestamp := ts, BinID := bin, Address := a\<rparr>))))))"

definition gc_DecodeValue :: "postage \<Rightarrow> item \<Rightarrow> value_slice \<Rightarrow> (item \<times> go_error option) outcome" where
  "gc_DecodeValue pk keyItem val =
     and_then (reslice_to val 32) (\<lambda>b.
     and_then (reslice_from val 32) (\<lambda>i.
       Ok (zero_item\<lparr>BatchID := copy_bytes (make_bytes 32) (visible b),
                      Index := copy_bytes (make_bytes (IndexSize pk)) (visible i)\<rparr>, None)))"

subsection \<open>pin: Address -> PinCounter\<close>

definition pin_EncodeKey :: "item \<Rightarrow> bytes" where
  "pin_EncodeKey flds = Address flds"

definition pin_DecodeKey :: "bytes \<Rightarrow> item outcome" where
  "pin_DecodeKey key = Ok (zero_item\<lparr>Address := key\<rparr>)"

definition pin_DecodeValue :: "item \<Rightarrow> value_slice \<Rightarrow> (item \<times> go_error option) outcome" where
  "pin_DecodeValue keyItem val =
     and_then (reslice_to val 8) (\<lambda>b.
     and_then (Uint64 (visible b)) (\<lambda>c. Ok (zero_item\<lparr>PinCounter := c\<rparr>, None)))"

subsection \<open>postageChunks: BatchID, PO, Address -> nil\<close>

text \<open>Here too the assignment of the proximity-order byte \<^verbatim>\<open>key[32]\<close> is commented
  out in the source.\<close>

definition postageChunks_EncodeKey :: "item \<Rightarrow> bytes" where
  "postageChunks_EncodeKey flds =
     (let key = make_bytes 65;
          key = copy_at key 0 32 (BatchID flds)
      in copy_at key 33 (length key) (Address flds))"

definition postageChunks_DecodeKey :: "bytes \<Rightarrow> item outcome" where
  "postageChunks_DecodeKey key =
     and_then (slice_to key 32) (\<lambda>b.
     and_then (slice key 33 65) (\<lambda>a. Ok (zero_item\<lparr>BatchID := b, Address := a\<rparr>)))"

definition postageChunks_DecodeValue :: "item \<Rightarrow> value_slice \<Rightarrow> (item \<times> go_error option) outcome" where
  "postageChunks_DecodeValue keyItem val = Ok (zero_item, None)"

subsection \<open>postageIndex: BatchID, BatchIndex -> Address, Timestamp\<close>

definition postageIndex_EncodeKey :: "item \<Rightarrow> bytes" where
  "postageIndex_EncodeKey flds =
     (let key = make_bytes 40;
          key = copy_at key 0 32 (BatchID flds)
      in copy_at key 32 40 (Index flds))"

definition postageIndex_DecodeKey :: "bytes \<Rightarrow> item outcome" where
  "postageIndex_DecodeKey key =
     and_then (slice_to key 32) (\<lambda>b.
     and_then (slice key 32 40) (\<lambda>i. Ok (zero_item\<lparr>BatchID := b, Index := i\<rparr>)))"

definition postageIndex_DecodeValue :: "item \<Rightarrow> value_slice \<Rightarrow> (item \<times> go_error option) outcome" where
  "postageIndex_DecodeValue keyItem val =
     and_then (reslice_to val 32) (\<lambda>a.
     and_then (reslice_from val 32) (\<lambda>t.
       Ok (zero_item\<lparr>Address := visible a, Timestamp := visible t\<rparr>, None)))"

section \<open>Formatting\<close>

text \<open>\<^verbatim>\<open>swarm.Address.String\<close> is the lower-case hexadecimal text of the bytes
  (\<^verbatim>\<open>hex.EncodeToString\<close>); \<^verbatim>\<open>%d\<close> prints an integer in decimal.\<close>

definition hextable :: string where
  "hextable = ''0123456789abcdef''"

definition hex_byte :: "byte \<Rightarrow> string" where
  "hex_byte b = [hextable ! unat (drop_bit 4 b), hextable ! unat (b AND 15)]"

definition Address_String :: "bytes \<Rightarrow> string" where
  "Address_String a = concat (map hex_byte a)"

fun digits :: "nat \<Rightarrow> string" where
  "digits n = (if n < 10 then [''0123456789'' ! n] else digits (n div 10) @ [''0123456789'' ! (n mod 10)])"

declare digits.simps [simp del]

definition fmt_d :: "int \<Rightarrow> string" where
  "fmt_d i = (if i < 0 then CHR ''-'' # digits (nat (- i)) else digits (nat i))"

section \<open>The opened store\<close>

text \<open>
  The index engine (\<^verbatim>\<open>shed\<close>), the blob store (\<^verbatim>\<open>sharky\<close>) and the two validity
  schemes (\<^verbatim>\<open>cac\<close>, \<^verbatim>\<open>soc\<close>) are external collaborators. The opened store is a
  record of what they answer:
  \<^item> \<open>iterate_result idx\<close>: the decoded records the engine hands to the visitor of
    \<^verbatim>\<open>Iterate\<close>, in ascending key order, and the error with which the iteration
    itself ends (\<open>None\<close> when it runs to the end of the index);
  \<^item> \<open>db_Has idx key\<close>: the engine's point lookup of an encoded key;
  \<^item> \<open>db_Count idx\<close>, \<open>field_Get name\<close>: an entry count (a Go \<^verbatim>\<open>int\<close>, taken to be
    64 bits wide and kept as its bit pattern) and a \<^verbatim>\<open>uint64\<close> counter, each with
    the error returned beside it;
  \<^item> \<open>LocationFromBinary\<close>, \<open>sharky_Read\<close>: the location parser and the blob read
    (on success the \<^verbatim>\<open>Length\<close> bytes read into the buffer);
  \<^item> \<open>cac_Valid\<close>, \<open>soc_Valid\<close>: the two schemes, applied to the chunk built from
    an address and its data.
\<close>

datatype index_name =
  RetrievalData | RetrievalAccess | Pull | Push | Gc | Pin | PostageChunks | PostageIndex

record 'loc store =
  iterate_result :: "index_name \<Rightarrow> item list \<times> go_error option"
  db_Has :: "index_name \<Rightarrow> bytes \<Rightarrow> bool \<times> go_error option"
  db_Count :: "index_name \<Rightarrow> uint64 \<times> go_error option"
  field_Get :: "string \<Rightarrow> uint64 \<times> go_error option"
  LocationFromBinary :: "bytes \<Rightarrow> go_error + 'loc"
  sharky_Read :: "'loc \<Rightarrow> go_error + bytes"
  cac_Valid :: "bytes \<Rightarrow> bytes \<Rightarrow> bool"
  soc_Valid :: "bytes \<Rightarrow> bytes \<Rightarrow> bool"

text \<open>Every call on the store is recorded. The engine and the blob store also offer
  operations that change the store; they are listed so that their absence from a run
  is a statement about the program.\<close>

datatype 'loc store_op =
    OpIterate index_name
  | OpHas index_name bytes
  | OpCount index_name
  | OpGet string
  | OpRead 'loc
  | OpPut index_name bytes bytes
  | OpDelete index_name bytes
  | OpSet string uint64
  | OpWrite bytes
  | OpRelease 'loc

fun is_read :: "'loc store_op \<Rightarrow> bool" where
  "is_read (OpIterate _) = True"
| "is_read (OpHas _ _) = True"
| "is_read (OpCount _) = True"
| "is_read (OpGet _) = True"
| "is_read (OpRead _) = True"
| "is_read (OpPut _ _ _) = False"
| "is_read (OpDelete _ _) = False"
| "is_read (OpSet _ _) = False"
| "is_read (OpWrite _) = False"
| "is_read (OpRelease _) = False"

fun EncodeKey_of :: "index_name \<Rightarrow> item \<Rightarrow> bytes" where
  "EncodeKey_of RetrievalData = retrievalData_EncodeKey"
| "EncodeKey_of RetrievalAccess = retrievalAccess_EncodeKey"
| "EncodeKey_of Pull = pull_EncodeKey"
| "EncodeKey_of Push = push_EncodeKey"
| "EncodeKey_of Gc = gc_EncodeKey"
| "EncodeKey_of Pin = pin_EncodeKey"
| "EncodeKey_of PostageChunks = postageChunks_EncodeKey"
| "EncodeKey_of PostageIndex = postageIndex_EncodeKey"

text \<open>\<^verbatim>\<open>Index.Iterate(fn, nil)\<close>: the visitor is called on each record in turn; an
  error of the visitor ends the iteration with that error, a visitor asking to stop ends
  it without one, and otherwise the iteration ends with the engine's own error.\<close>

fun Iterate_items ::
  "item list \<Rightarrow> go_error option \<Rightarrow> (item \<Rightarrow> 's \<Rightarrow> (bool \<times> go_error option) \<times> 's) \<Rightarrow> 's
     \<Rightarrow> go_error option \<times> 's" where
  "Iterate_items [] e fn s = (e, s)"
| "Iterate_items (x # xs) e fn s =
     (let ((stop, err), s') = fn x s
      in if err \<noteq> None then (err, s')
         else if stop then (None, s')
         else Iterate_items xs e fn s')"

definition Index_Iterate ::
  "'loc store \<Rightarrow> index_name
     \<Rightarrow> (item \<Rightarrow> 's \<times> 'loc store_op list \<Rightarrow> (bool \<times> go_error option) \<times> 's \<times> 'loc store_op list)
     \<Rightarrow> 's \<times> 'loc store_op list \<Rightarrow> go_error option \<times> 's \<times> 'loc store_op list" where
  "Index_Iterate st idx fn sl =
     Iterate_items (fst (iterate_result st idx)) (snd (iterate_result st idx)) fn
       (fst sl, snd sl @ [OpIterate idx])"

text \<open>\<^verbatim>\<open>Index.Has(item)\<close>: a point lookup by the record's key as the index encodes it.\<close>

definition Index_Has ::
  "'loc store \<Rightarrow> index_name \<Rightarrow> item \<Rightarrow> 'loc store_op list
     \<Rightarrow> (bool \<times> go_error option) \<times> 'loc store_op list" where
  "Index_Has st idx it log =
     (db_Has st idx (EncodeKey_of idx it), log @ [OpHas idx (EncodeKey_of idx it)])"

definition Index_Count ::
  "'loc store \<Rightarrow> index_name \<Rightarrow> 'loc store_op list \<Rightarrow> (uint64 \<times> go_error option) \<times> 'loc store_op list" where
  "Index_Count st idx log = (db_Count st idx, log @ [OpCount idx])"

definition Field_Get ::
  "'loc store \<Rightarrow> string \<Rightarrow> 'loc store_op list \<Rightarrow> (uint64 \<times> go_error option) \<times> 'loc store_op list" where
  "Field_Get st name log = (field_Get st name, log @ [OpGet name])"

definition Store_Read ::
  "'loc store \<Rightarrow> 'loc \<Rightarrow> 'loc store_op list \<Rightarrow> (go_error + bytes) \<times> 'loc store_op list" where
  "Store_Read st l log = (sharky_Read st l, log @ [OpRead l])"

section \<open>Referential integrity: \<^verbatim>\<open>checkIndexes\<close>\<close>

definition violation_msg :: "string \<Rightarrow> string \<Rightarrow> bytes \<Rightarrow> string" where
  "violation_msg srcStr dstStr a =
     ''item in '' @ srcStr @ '' and not in '' @ dstStr @ '' '' @ Address_String a"

definition critical_msg :: "string \<Rightarrow> string" where
  "critical_msg srcStr = ''CRITICAL: failed checking '' @ srcStr @ '' index''"

definition checkIndexes_fn ::
  "'loc store \<Rightarrow> index_name \<Rightarrow> string \<Rightarrow> string \<Rightarrow> item \<Rightarrow> string list \<times> 'loc store_op list
     \<Rightarrow> (bool \<times> go_error option) \<times> string list \<times> 'loc store_op list" where
  "checkIndexes_fn st dstIdx srcStr dstStr it ml =
     (let ((exists, err), log) = Index_Has st dstIdx it (snd ml)
      in if err \<noteq> None \<or> \<not> exists
         then ((False, None), (fst ml @ [violation_msg srcStr dstStr (Address it)], log))
         else ((False, None), (fst ml, log)))"

definition checkIndexes ::
  "'loc store \<Rightarrow> index_name \<Rightarrow> index_name \<Rightarrow> string \<Rightarrow> string \<Rightarrow> 'loc store_op list
     \<Rightarrow> string list \<times> 'loc store_op list" where
  "checkIndexes st srcIdx dstIdx srcStr dstStr log =
     (let (err, (msgs, log')) =
            Index_Iterate st srcIdx (checkIndexes_fn st dstIdx srcStr dstStr) ([], log)
      in if err \<noteq> None then (msgs @ [critical_msg srcStr], log') else (msgs, log'))"

section \<open>Counter bound (\<^verbatim>\<open>main\<close>, lines 338 to 345)\<close>

text \<open>\<^verbatim>\<open>int(gcCnt+rsvCnt) > chunkCnt\<close>: the sum is a \<^verbatim>\<open>uint64\<close> sum, which wraps, and
  the conversion to \<^verbatim>\<open>int\<close> reads its 64 bits as a signed number. The message prints
  the sum with \<^verbatim>\<open>%d\<close> as the unsigned value it is, and the count as a signed one.\<close>

definition counter_msg :: "uint64 \<Rightarrow> uint64 \<Rightarrow> string" where
  "counter_msg s chunkCnt =
     ''gcSize+reserveSize('' @ fmt_d (uint s) @ '') > chunkCount('' @ fmt_d (sint chunkCnt) @ '')''"

definition counter_check :: "uint64 \<Rightarrow> uint64 \<Rightarrow> uint64 \<Rightarrow> string list" where
  "counter_check gcCnt rsvCnt chunkCnt =
     (if sint (gcCnt + rsvCnt) > sint chunkCnt then [counter_msg (gcCnt + rsvCnt) chunkCnt] else [])"

section \<open>Content integrity (\<^verbatim>\<open>main\<close>, lines 347 to 364)\<close>

definition invalid_location_msg :: "bytes \<Rightarrow> go_error \<Rightarrow> string" where
  "invalid_location_msg a err =
     ''invalid sharky location for item '' @ Address_String a @ '' err: '' @ err"

definition cannot_read_msg :: "go_error \<Rightarrow> string" where
  "cannot_read_msg err = ''cannot read location from sharky '' @ err"

definition corruption_msg :: "bytes \<Rightarrow> string" where
  "corruption_msg a = ''address '' @ Address_String a"

text \<open>The visitor of the scan. Its state is the pair of lists \<^verbatim>\<open>inconsistencies\<close> and
  \<^verbatim>\<open>corruptions\<close> of \<^verbatim>\<open>main\<close>, which the closure appends to. Every path returns
  \<^verbatim>\<open>false, nil\<close>.\<close>

definition scan_fn ::
  "'loc store \<Rightarrow> item \<Rightarrow> (string list \<times> string list) \<times> 'loc store_op list
     \<Rightarrow> (bool \<times> go_error option) \<times> (string list \<times> string list) \<times> 'loc store_op list" where
  "scan_fn st it sl =
     (let inconsistencies = fst (fst sl); corruptions = snd (fst sl); log = snd sl
      in case LocationFromBinary st (Location it) of
           Inl err \<Rightarrow>
             ((False, None),
              ((inconsistencies @ [invalid_location_msg (Address it) err], corruptions), log))
         | Inr l \<Rightarrow>
             (let (r, log') = Store_Read st l log
              in case r of
                   Inl err \<Rightarrow>
                     ((False, None),
                      ((inconsistencies @ [cannot_read_msg err], corruptions), log'))
                 | Inr data \<Rightarrow>
                     if \<not> cac_Valid st (Address it) data \<and> \<not> soc_Valid st (Address it) data
                     then ((False, None),
                           ((inconsistencies, corruptions @ [corruption_msg (Address it)]), log'))
                     else ((False, None), ((inconsistencies, corruptions), log'))))"

section \<open>The report (\<^verbatim>\<open>main\<close>, lines 366 to 382)\<close>

text \<open>Standard output is the list of the texts printed, one element for each call of
  \<^verbatim>\<open>Printf\<close> or \<^verbatim>\<open>Println\<close>.\<close>

fun print_each :: "string \<Rightarrow> string list \<Rightarrow> string list \<Rightarrow> string list" where
  "print_each label [] out = out"
| "print_each label (v # vs) out = print_each label vs (out @ [label @ v @ ''\<newline>''])"

definition report :: "string list \<Rightarrow> string list \<Rightarrow> string list" where
  "report inconsistencies corruptions =
     (let out = [''Check complete''];
          out = (if length inconsistencies > 0
                 then print_each ''INCONSISTENCY: '' inconsistencies
                        (out @ [''Found '' @ fmt_d (int (length inconsistencies))
                                  @ '' inconsistencies in indexes\<newline>''])
                 else out);
          out = (if length corruptions > 0
                 then print_each ''DATA CORRUPTION: '' corruptions
                        (out @ [''Found '' @ fmt_d (int (length corruptions))
                                  @ '' data corruptions\<newline>''])
                 else out)
      in if length corruptions = 0 \<and> length inconsistencies = 0
         then out @ [''No inconsistencies or corruptions found\<newline>'']
         else out)"

section \<open>The audit (\<^verbatim>\<open>main\<close>, from line 328)\<close>

record 'loc run =
  inconsistencies_of :: "string list"
  corruptions_of :: "string list"
  oplog :: "'loc store_op list"
  stdout :: "string list"

definition audit :: "'loc store \<Rightarrow> 'loc run" where
  "audit st =
     (let log = [];
          inconsistencies = [];
          (m, log) = checkIndexes st RetrievalAccess RetrievalData ''retrievalAccessIdx'' ''retrievalDataIndex'' log;
          inconsistencies = inconsistencies @ m;
          (m, log) = checkIndexes st Pull RetrievalData ''pullIdx'' ''retrievalDataIndex'' log;
          inconsistencies = inconsistencies @ m;
          (m, log) = checkIndexes st Push RetrievalData ''pushIdx'' ''retrievalDataIndex'' log;
          inconsistencies = inconsistencies @ m;
          (m, log) = checkIndexes st Gc RetrievalData ''gcIdx'' ''retrievalDataIndex'' log;
          inconsistencies = inconsistencies @ m;
          (m, log) = checkIndexes st Pin RetrievalData ''pinIdx'' ''retrievalDataIndex'' log;
          inconsistencies = inconsistencies @ m;
          (m, log) = checkIndexes st PostageChunks RetrievalData ''postageChunksIdx'' ''retrievalDataIndex'' log;
          inconsistencies = inconsistencies @ m;
          (m, log) = checkIndexes st PostageIndex RetrievalData ''postageIndexIdx'' ''retrievalDataIndex'' log;
          inconsistencies = inconsistencies @ m;
          (gc, log) = Field_Get st ''gc-size'' log;
          gcCnt = fst gc;
          (rsv, log) = Field_Get st ''reserve-size'' log;
          rsvCnt = fst rsv;
          (cnt, log) = Index_Count st RetrievalData log;
          chunkCnt = fst cnt;
          inconsistencies = inconsistencies @ counter_check gcCnt rsvCnt chunkCnt;
          (err, (ic, log)) = Index_Iterate st RetrievalData (scan_fn st) ((inconsistencies, []), log)
      in \<lparr>inconsistencies_of = fst ic, corruptions_of = snd ic, oplog = log,
          stdout = report (fst ic) (snd ic)\<rparr>)"

section \<open>Opening the blob store's files: \<^verbatim>\<open>dirFS.Open\<close>\<close>

text \<open>
  The file system is a map from paths to files, each with its content and its permission
  bits; \<open>permitted\<close> says for which paths the operating system lets the process open or
  create a file, and \<open>umask\<close> is the file-mode creation mask of the process.
  \<^verbatim>\<open>os.OpenFile\<close> with \<^verbatim>\<open>O_CREATE\<close> creates a file that does not exist: empty, with
  the permission bits asked for less those of the mask. Without \<^verbatim>\<open>O_CREATE\<close> a missing
  file is an error. \<^verbatim>\<open>filepath.Join\<close> is modelled for two clean, non-empty elements.
\<close>

datatype open_flag = O_RDONLY | O_WRONLY | O_RDWR | O_CREATE | O_TRUNC | O_APPEND

type_synonym FileMode = uint32

record inode =
  file_content :: bytes
  file_mode :: FileMode

record os_state =
  files :: "string \<Rightarrow> inode option"
  permitted :: "string \<Rightarrow> bool"
  umask :: FileMode

record os_file =
  file_name :: string
  file_flags :: "open_flag list"

record dirFS =
  basedir :: string

definition filepath_Join :: "string \<Rightarrow> string \<Rightarrow> string" where
  "filepath_Join a b = a @ ''/'' @ b"

definition os_OpenFile ::
  "os_state \<Rightarrow> string \<Rightarrow> open_flag list \<Rightarrow> FileMode \<Rightarrow> (go_error + os_file) \<times> os_state" where
  "os_OpenFile os name flags perm =
     (if \<not> permitted os name then (Inl (''open '' @ name @ '': permission denied''), os)
      else case files os name of
             Some f \<Rightarrow>
               (Inr \<lparr>file_name = name, file_flags = flags\<rparr>,
                if O_TRUNC \<in> set flags
                then os\<lparr>files := (files os)(name \<mapsto> f\<lparr>file_content := []\<rparr>)\<rparr>
                else os)
           | None \<Rightarrow>
               if O_CREATE \<in> set flags
               then (Inr \<lparr>file_name = name, file_flags = flags\<rparr>,
                     os\<lparr>files := (files os)(name \<mapsto>
                          \<lparr>file_content = [], file_mode = perm AND NOT (umask os)\<rparr>)\<rparr>)
               else (Inl (''open '' @ name @ '': no such file or directory''), os))"

text \<open>The permission argument \<^verbatim>\<open>0644\<close> is 420.\<close>

definition dirFS_Open :: "dirFS \<Rightarrow> string \<Rightarrow> os_state \<Rightarrow> (go_error + os_file) \<times> os_state" where
  "dirFS_Open d path os = os_OpenFile os (filepath_Join (basedir d) path) [O_RDWR, O_CREATE] 420"

section \<open>The whole run: \<^verbatim>\<open>main\<close>\<close>

text \<open>
  What \<^verbatim>\<open>main\<close> meets at start-up is a record of answers as well: whether
  \<^verbatim>\<open>os.Stat\<close> finds the store directory and the blob directory missing, and the
  results of \<^verbatim>\<open>shed.NewDB\<close>, \<^verbatim>\<open>sharky.New\<close>, \<^verbatim>\<open>NewStringField\<close>, the read of the
  schema name, \<^verbatim>\<open>NewUint64Field\<close> and \<^verbatim>\<open>NewIndex\<close>; \<open>DBSchemaCurrent\<close> is the constant
  of package \<^verbatim>\<open>localstore\<close>. The path given on the command line is taken to be clean.

  \<^verbatim>\<open>sharky.New\<close> is handed the \<^verbatim>\<open>dirFS\<close> as an \<^verbatim>\<open>fs.FS\<close>, whose only method is
  \<^verbatim>\<open>Open\<close>: it reaches the file system through \<^verbatim>\<open>dirFS.Open\<close> alone. The names it
  opens, in order, are the parameter \<open>sharky_files\<close>; an \<^verbatim>\<open>Open\<close> that fails makes it
  fail, and \<open>sharky_New_result\<close> is its result when every \<^verbatim>\<open>Open\<close> succeeded.
\<close>

record 'loc world =
  os_before :: os_state
  path_missing :: bool
  NewDB_result :: "go_error option"
  sharky_dir_missing :: bool
  sharky_files :: "string list"
  sharky_New_result :: "go_error option"
  NewStringField_result :: "go_error option"
  schemaName_Get :: "string \<times> go_error option"
  DBSchemaCurrent :: string
  NewUint64Field_result :: "string \<Rightarrow> go_error option"
  NewIndex_result :: "string \<Rightarrow> go_error option"
  opened_store :: "'loc store"

text \<open>The calls of a run: those that open the store or bind a field or an index, the
  operations on the opened store, and the deferred \<^verbatim>\<open>sh.Close()\<close>.\<close>

datatype open_op =
    NewDB string
  | SharkyNew
  | NewStringField string
  | NewUint64Field string
  | NewIndex string

datatype 'loc call = Opening open_op | OnStore "'loc store_op" | Closing

record 'loc main_run =
  printed :: "string list"
  calls :: "'loc call list"
  os_after :: os_state

fun open_all :: "dirFS \<Rightarrow> string list \<Rightarrow> os_state \<Rightarrow> go_error option \<times> os_state" where
  "open_all d [] os = (None, os)"
| "open_all d (p # ps) os =
     (case dirFS_Open d p os of
        (Inl err, os') \<Rightarrow> (Some err, os')
      | (Inr f, os') \<Rightarrow> open_all d ps os')"

definition sharky_New :: "'loc world \<Rightarrow> dirFS \<Rightarrow> os_state \<Rightarrow> go_error option \<times> os_state" where
  "sharky_New w base os =
     (let (r, os') = open_all base (sharky_files w) os
      in (if r \<noteq> None then r else sharky_New_result w, os'))"

text \<open>\<^verbatim>\<open>Printf\<close> prints this for a verb that has no operand, as in
  \<^verbatim>\<open>fmt.Printf("failed initializing index %v\n")\<close>.\<close>

definition missing_operand :: string where
  "missing_operand = ''%!v(MISSING)''"

text \<open>The ten bindings of lines 79 to 324, in order: the call, its result, and what is
  printed when it fails. Only the last one passes the error to \<^verbatim>\<open>Printf\<close>.\<close>

definition bindings :: "'loc world \<Rightarrow> (open_op \<times> go_error option \<times> (go_error \<Rightarrow> string)) list" where
  "bindings w =
     [(NewUint64Field ''gc-size'', NewUint64Field_result w ''gc-size'',
       \<lambda>err. ''failed reading gc-size '' @ missing_operand @ ''\<newline>''),
      (NewUint64Field ''reserve-size'', NewUint64Field_result w ''reserve-size'',
       \<lambda>err. ''failed reading reserveSize '' @ missing_operand @ ''\<newline>''),
      (NewIndex ''Address->StoreTimestamp|BinID|BatchID|BatchIndex|Sig|Location'',
       NewIndex_result w ''Address->StoreTimestamp|BinID|BatchID|BatchIndex|Sig|Location'',
       \<lambda>err. ''failed initializing index '' @ missing_operand @ ''\<newline>''),
      (NewIndex ''Address->AccessTimestamp'', NewIndex_result w ''Address->AccessTimestamp'',
       \<lambda>err. ''failed initializing index '' @ missing_operand @ ''\<newline>''),
      (NewIndex ''PO|BinID->Hash'', NewIndex_result w ''PO|BinID->Hash'',
       \<lambda>err. ''failed initializing index '' @ missing_operand @ ''\<newline>''),
      (NewIndex ''StoreTimestamp|Hash->Tags'', NewIndex_result w ''StoreTimestamp|Hash->Tags'',
       \<lambda>err. ''failed initializing index '' @ missing_operand @ ''\<newline>''),
      (NewIndex ''AccessTimestamp|BinID|Hash->BatchID|BatchIndex'',
       NewIndex_result w ''AccessTimestamp|BinID|Hash->BatchID|BatchIndex'',
       \<lambda>err. ''failed initializing index '' @ missing_operand @ ''\<newline>''),
      (NewIndex ''Hash->PinCounter'', NewIndex_result w ''Hash->PinCounter'',
       \<lambda>err. ''failed initializing index '' @ missing_operand @ ''\<newline>''),
      (NewIndex ''BatchID|PO|Hash->nil'', NewIndex_result w ''BatchID|PO|Hash->nil'',
       \<lambda>err. ''failed initializing index '' @ missing_operand @ ''\<newline>''),
      (NewIndex ''BatchID|BatchIndex->Hash|Timestamp'',
       NewIndex_result w ''BatchID|BatchIndex->Hash|Timestamp'',
       \<lambda>err. ''failed initializing index '' @ err @ ''\<newline>'')]"

text \<open>Each binding that fails prints its message and returns from \<^verbatim>\<open>main\<close>.\<close>

fun bind_all ::
  "(open_op \<times> go_error option \<times> (go_error \<Rightarrow> string)) list \<Rightarrow> string list \<times> 'loc call list
     \<Rightarrow> bool \<times> string list \<times> 'loc call list" where
  "bind_all [] oc = (True, oc)"
| "bind_all ((op, r, msg) # rest) oc =
     (case r of
        Some err \<Rightarrow> (False, fst oc @ [msg err], snd oc @ [Opening op])
      | None \<Rightarrow> bind_all rest (fst oc, snd oc @ [Opening op]))"

text \<open>From the check of the blob directory (line 48) to the end of \<^verbatim>\<open>main\<close>: what is
  printed, the calls made, and the file system left behind.\<close>

definition after_NewDB :: "'loc world \<Rightarrow> string \<Rightarrow> string list \<times> 'loc call list \<times> os_state" where
  "after_NewDB w path =
     (if sharky_dir_missing w then ([''sharky directory missing''], [], os_before w)
      else
        let (r, os') = sharky_New w \<lparr>basedir = filepath_Join path ''sharky''\<rparr> (os_before w)
        in if r \<noteq> None
           then ([''failed initializing sharky '' @ missing_operand @ ''\<newline>''],
                 [Opening SharkyNew], os')
           else if NewStringField_result w \<noteq> None
           then ([''failed initializing sharky '' @ missing_operand @ ''\<newline>''],
                 [Opening SharkyNew, Opening (NewStringField ''schema-name'')], os')
           else if snd (schemaName_Get w) \<noteq> None
           then ([''failed reading schema '' @ missing_operand @ ''\<newline>''],
                 [Opening SharkyNew, Opening (NewStringField ''schema-name''),
                  OnStore (OpGet ''schema-name'')], os')
           else if fst (schemaName_Get w) \<noteq> DBSchemaCurrent w
           then ([''incorrect schema, needs '' @ DBSchemaCurrent w @ ''\<newline>''],
                 [Opening SharkyNew, Opening (NewStringField ''schema-name''),
                  OnStore (OpGet ''schema-name'')], os')
           else
             let (ok, out, cs) =
                   bind_all (bindings w)
                     ([], [Opening SharkyNew, Opening (NewStringField ''schema-name''),
                           OnStore (OpGet ''schema-name'')])
             in if \<not> ok then (out, cs, os')
                else
                  let a = audit (opened_store w)
                  in (out @ [''Starting check for localstore at '' @ path @ ''...\<newline>'']
                        @ stdout a,
                      cs @ map OnStore (oplog a), os'))"

definition main :: "'loc world \<Rightarrow> string \<Rightarrow> 'loc main_run" where
  "main w path =
     (if path_missing w
      then \<lparr>printed = [''path should be full path to localstore directory\<newline>''],
            calls = [], os_after = os_before w\<rparr>
      else case NewDB_result w of
             Some err \<Rightarrow>
               \<lparr>printed = [''failed initializing shed '' @ err @ ''\<newline>''],
                calls = [Opening (NewDB path)], os_after = os_before w\<rparr>
           | None \<Rightarrow>
               (let r = after_NewDB w path
                in \<lparr>printed = fst r,
                    calls = [Opening (NewDB path)] @ fst (snd r) @ [Closing],
                    os_after = snd (snd r)\<rparr>))"

text \<open>Every step of start-up succeeds, so that the audit is reached.\<close>

definition startup_ok :: "'loc world \<Rightarrow> string \<Rightarrow> bool" where
  "startup_ok w path =
     (\<not> path_missing w \<and> NewDB_result w = None \<and> \<not> sharky_dir_missing w
      \<and> fst (sharky_New w \<lparr>basedir = filepath_Join path ''sharky''\<rparr> (os_before w)) = None
      \<and> NewStringField_result w = None
      \<and> snd (schemaName_Get w) = None \<and> fst (schemaName_Get w) = DBSchemaCurrent w
      \<and> list_all (\<lambda>b. fst (snd b) = None) (bindings w))"

section \<open>What the specification says, as functions of the store\<close>

text \<open>These definitions follow the words of the specification; the theorems below
  compare them with the definitions taken from the source.\<close>

text \<open>The seven checks of lines 330 to 336: the source index and the name it is given.\<close>

definition secondary_indexes :: "(index_name \<times> string) list" where
  "secondary_indexes =
     [(RetrievalAccess, ''retrievalAccessIdx''), (Pull, ''pullIdx''), (Push, ''pushIdx''),
      (Gc, ''gcIdx''), (Pin, ''pinIdx''), (PostageChunks, ''postageChunksIdx''),
      (PostageIndex, ''postageIndexIdx'')]"

text \<open>The lookup of a record's address in the primary index reports presence, without
  an error.\<close>

definition spec_present :: "'loc store \<Rightarrow> item \<Rightarrow> bool" where
  "spec_present st it = (db_Has st RetrievalData (Address it) = (True, None))"

text \<open>One violation for each source record not reported present, in key order, then the
  critical message if the iteration itself failed.\<close>

definition spec_referential :: "'loc store \<Rightarrow> index_name \<Rightarrow> string \<Rightarrow> string list" where
  "spec_referential st src srcStr =
     map (\<lambda>it. violation_msg srcStr ''retrievalDataIndex'' (Address it))
       (filter (\<lambda>it. \<not> spec_present st it) (fst (iterate_result st src)))
     @ (if snd (iterate_result st src) = None then [] else [critical_msg srcStr])"

definition spec_referential_ops :: "'loc store \<Rightarrow> index_name \<Rightarrow> 'loc store_op list" where
  "spec_referential_ops st src =
     OpIterate src # map (\<lambda>it. OpHas RetrievalData (Address it)) (fst (iterate_result st src))"

definition spec_counter :: "'loc store \<Rightarrow> string list" where
  "spec_counter st =
     counter_check (fst (field_Get st ''gc-size'')) (fst (field_Get st ''reserve-size''))
       (fst (db_Count st RetrievalData))"

text \<open>What the content scan records for one primary record: an inconsistency when the
  location does not decode or the blob cannot be read, a corruption when the data read
  satisfies neither scheme.\<close>

definition spec_scan_inconsistency :: "'loc store \<Rightarrow> item \<Rightarrow> string list" where
  "spec_scan_inconsistency st it =
     (case LocationFromBinary st (Location it) of
        Inl err \<Rightarrow> [invalid_location_msg (Address it) err]
      | Inr l \<Rightarrow> (case sharky_Read st l of Inl err \<Rightarrow> [cannot_read_msg err] | Inr data \<Rightarrow> []))"

definition spec_corrupt :: "'loc store \<Rightarrow> item \<Rightarrow> bool" where
  "spec_corrupt st it =
     (case LocationFromBinary st (Location it) of
        Inl err \<Rightarrow> False
      | Inr l \<Rightarrow> (case sharky_Read st l of
                    Inl err \<Rightarrow> False
                  | Inr data \<Rightarrow> \<not> cac_Valid st (Address it) data \<and> \<not> soc_Valid st (Address it) data))"

definition spec_scan_reads :: "'loc store \<Rightarrow> item \<Rightarrow> 'loc store_op list" where
  "spec_scan_reads st it =
     (case LocationFromBinary st (Location it) of Inl err \<Rightarrow> [] | Inr l \<Rightarrow> [OpRead l])"

section \<open>Example stores\<close>

text \<open>Two 32-byte addresses, a small store with blob locations numbered by naturals, and
  a stamp layout (32, 8, 8 and 65 bytes) for the examples.\<close>

definition addrA :: bytes where
  "addrA = replicate 32 0xAA"

definition addrB :: bytes where
  "addrB = replicate 32 0xBB"

definition addrC :: bytes where
  "addrC = replicate 32 0xCC"

definition addrD :: bytes where
  "addrD = replicate 32 0xDD"

text \<open>\<open>itemA\<close> is sound; the blob of \<open>itemB\<close> cannot be read; the location of
  \<open>itemC\<close> does not decode; the data of \<open>itemD\<close> satisfies neither scheme.\<close>

definition itemA :: item where
  "itemA = zero_item\<lparr>Address := addrA, Location := [1]\<rparr>"

definition itemB :: item where
  "itemB = zero_item\<lparr>Address := addrB, Location := [2]\<rparr>"

definition itemC :: item where
  "itemC = zero_item\<lparr>Address := addrC, Location := []\<rparr>"

definition itemD :: item where
  "itemD = zero_item\<lparr>Address := addrD, Location := [3]\<rparr>"

definition ex_store :: "nat store" where
  "ex_store = \<lparr>
     iterate_result = (\<lambda>idx. if idx = Pin then ([itemA, itemB], None)
                             else if idx = RetrievalData then ([itemA, itemB, itemC, itemD], None)
                             else ([], None)),
     db_Has = (\<lambda>idx key. (idx = RetrievalData \<and> key = addrA, None)),
     db_Count = (\<lambda>idx. (if idx = RetrievalData then 4 else 0, None)),
     field_Get = (\<lambda>name. (if name = ''gc-size'' then 1 else 2, None)),
     LocationFromBinary = (\<lambda>b. if length b = 1 then Inr (unat (hd b)) else Inl ''short buffer''),
     sharky_Read = (\<lambda>l. if l = 1 then Inr [7] else if l = 3 then Inr [9] else Inl ''EOF''),
     cac_Valid = (\<lambda>a d. a = addrA \<and> d = [7]),
     soc_Valid = (\<lambda>a d. False)\<rparr>"

text \<open>An empty store in which the iteration over one index fails at once.\<close>

definition ex_store_iter_fails :: "index_name \<Rightarrow> nat store" where
  "ex_store_iter_fails failing = \<lparr>
     iterate_result = (\<lambda>idx. if idx = failing then ([], Some ''leveldb: closed'') else ([], None)),
     db_Has = (\<lambda>idx key. (False, None)),
     db_Count = (\<lambda>idx. (0, None)),
     field_Get = (\<lambda>name. (0, None)),
     LocationFromBinary = (\<lambda>b. Inl ''short buffer''),
     sharky_Read = (\<lambda>l. Inl ''EOF''),
     cac_Valid = (\<lambda>a d. False),
     soc_Valid = (\<lambda>a d. False)\<rparr>"

definition ex_postage :: postage where
  "ex_postage = \<lparr>
     StampSize = 113,
     IndexSize = 8,
     UnmarshalBinary = (\<lambda>b. if length b \<noteq> 113 then Inl ''invalid stamp''
                             else Inr \<lparr>stampBatchID = take 32 b, stampIndex = take 8 (drop 32 b),
                                       stampTimestamp = take 8 (drop 40 b), stampSig = drop 48 b\<rparr>)\<rparr>"

text \<open>A stamp decoder that rejects one stamp of the right size, a record with fields of
  the sizes the key layouts expect, and a blob directory in which only the shard file
  \<open>shard_001\<close> exists.\<close>

definition ex_postage_strict :: postage where
  "ex_postage_strict = \<lparr>
     StampSize = 2,
     IndexSize = 8,
     UnmarshalBinary = (\<lambda>b. if b = [0, 0] then Inl ''invalid stamp''
                             else Inr \<lparr>stampBatchID = b, stampIndex = [], stampTimestamp = [],
                                       stampSig = []\<rparr>)\<rparr>"

definition ex_os :: os_state where
  "ex_os = \<lparr>files = (\<lambda>p. if p = ''/data/localstore/sharky/shard_001''
                         then Some \<lparr>file_content = [1, 2, 3], file_mode = 384\<rparr> else None),
            permitted = (\<lambda>p. True),
            umask = 18\<rparr>"

text \<open>A run in which every step of start-up succeeds, on the example store, with a blob
  store that asks for two shard files.\<close>

definition ex_world :: "nat world" where
  "ex_world = \<lparr>
     os_before = ex_os,
     path_missing = False,
     NewDB_result = None,
     sharky_dir_missing = False,
     sharky_files = [''shard_000'', ''shard_001''],
     sharky_New_result = None,
     NewStringField_result = None,
     schemaName_Get = (''sharky'', None),
     DBSchemaCurrent = ''sharky'',
     NewUint64Field_result = (\<lambda>name. None),
     NewIndex_result = (\<lambda>name. None),
     opened_store = ex_store\<rparr>"

text \<open>An empty store whose three counter reads return the given values, each beside an
  error.\<close>

definition ex_store_counters :: "uint64 \<Rightarrow> uint64 \<Rightarrow> uint64 \<Rightarrow> nat store" where
  "ex_store_counters g r c = \<lparr>
     iterate_result = (\<lambda>idx. ([], None)),
     db_Has = (\<lambda>idx key. (False, None)),
     db_Count = (\<lambda>idx. (c, Some ''leveldb: closed'')),
     field_Get = (\<lambda>name. (if name = ''gc-size'' then g else r, Some ''leveldb: not found'')),
     LocationFromBinary = (\<lambda>b. Inl ''short buffer''),
     sharky_Read = (\<lambda>l. Inl ''EOF''),
     cac_Valid = (\<lambda>a d. False),
     soc_Valid = (\<lambda>a d. False)\<rparr>"

text \<open>Values of three bytes, without and with spare capacity, and values for the stamp
  decoder that rejects a stamp of zeros.\<close>

definition short_value :: value_slice where
  "short_value = \<lparr>visible = [1, 2, 3], beyond = []\<rparr>"

definition short_value_spare :: value_slice where
  "short_value_spare = \<lparr>visible = [1, 2, 3], beyond = [4, 5, 6, 7, 8, 9]\<rparr>"

definition short_bad_stamp_value :: value_slice where
  "short_bad_stamp_value = \<lparr>visible = replicate 3 0, beyond = replicate 15 0\<rparr>"

definition ex_dir :: dirFS where
  "ex_dir = \<lparr>basedir = ''/data/localstore/sharky''\<rparr>"

definition itemK :: item where
  "itemK = zero_item\<lparr>Address := addrA, BinID := 5, StoreTimestamp := 260, BatchID := addrB,
     Index := [0, 0, 0, 0, 0, 0, 0, 9]\<rparr>"

section \<open>Facts about the primitives\<close>

lemma length_PutUint64: "length (PutUint64 v) = 8"
  by (simp add: PutUint64_def)

lemma ucast_byte_of_drop_bit:
  "(ucast (ucast (drop_bit n (v :: uint64)) :: byte) :: uint64) = take_bit 8 (drop_bit n v)"
  by (rule bit_word_eqI) (simp add: bit_simps)

lemma ucast_byte_of_word:
  "(ucast (ucast (v :: uint64) :: byte) :: uint64) = take_bit 8 v"
  by (rule bit_word_eqI) (simp add: bit_simps)

lemma take_bit_next_byte:
  "take_bit k (w :: uint64) OR push_bit k (take_bit 8 (drop_bit k w)) = take_bit (k + 8) w"
  by (rule bit_word_eqI) (auto simp add: bit_simps)

lemma Uint64_PutUint64: "Uint64 (PutUint64 v) = Ok v"
proof -
  have "take_bit 64 v = v"
    by (rule take_bit_word_eq_self) simp
  then have "((((((take_bit 8 v OR push_bit 8 (take_bit 8 (drop_bit 8 v)))
          OR push_bit 16 (take_bit 8 (drop_bit 16 v)))
          OR push_bit 24 (take_bit 8 (drop_bit 24 v)))
          OR push_bit 32 (take_bit 8 (drop_bit 32 v)))
          OR push_bit 40 (take_bit 8 (drop_bit 40 v)))
          OR push_bit 48 (take_bit 8 (drop_bit 48 v)))
          OR push_bit 56 (take_bit 8 (drop_bit 56 v)) = v"
    by (simp add: take_bit_next_byte)
  then show ?thesis
    by (simp add: Uint64_def PutUint64_def ucast_byte_of_drop_bit ucast_byte_of_word or.assoc)
qed

text \<open>The hexadecimal text of an address determines the address.\<close>

lemma hextable_nth_inj:
  "i < 16 \<Longrightarrow> j < 16 \<Longrightarrow> hextable ! i = hextable ! j \<Longrightarrow> i = j"
proof -
  assume a: "i < 16" "j < 16" "hextable ! i = hextable ! j"
  have d: "distinct hextable" by (simp add: hextable_def)
  have l: "length hextable = 16" by (simp add: hextable_def)
  from d a l show ?thesis by (simp add: nth_eq_iff_index_eq)
qed

lemma hi_nibble: "unat (drop_bit 4 (b :: byte)) = unat b div 16"
  by (simp add: drop_bit_eq_div unat_div)

lemma lo_nibble: "unat ((b :: byte) AND 15) = unat b mod 16"
proof -
  have "b AND 15 = take_bit 4 b"
    by (simp add: take_bit_eq_mask mask_eq_exp_minus_1)
  then show ?thesis
    by (simp add: take_bit_eq_mod unat_mod)
qed

lemma hex_byte_inj: "hex_byte b = hex_byte c \<Longrightarrow> b = c"
proof -
  assume a: "hex_byte b = hex_byte c"
  have bb: "unat b < 256" "unat c < 256"
    using unsigned_less [of b, where 'a = nat] unsigned_less [of c, where 'a = nat] by simp_all
  then have r: "unat b div 16 < 16" "unat c div 16 < 16" "unat b mod 16 < 16" "unat c mod 16 < 16"
    by simp_all
  from a have h: "hextable ! (unat b div 16) = hextable ! (unat c div 16)"
    and l: "hextable ! (unat b mod 16) = hextable ! (unat c mod 16)"
    by (simp_all add: hex_byte_def hi_nibble lo_nibble)
  have "unat b div 16 = unat c div 16"
    by (rule hextable_nth_inj [OF r(1) r(2) h])
  moreover have "unat b mod 16 = unat c mod 16"
    by (rule hextable_nth_inj [OF r(3) r(4) l])
  ultimately have "unat b = unat c"
    by (metis div_mult_mod_eq)
  then show ?thesis by (simp add: word_unat_eq_iff)
qed

lemma Address_String_inj: "Address_String a = Address_String b \<Longrightarrow> a = b"
proof (induction a arbitrary: b)
  case Nil
  then show ?case by (cases b) (simp_all add: Address_String_def hex_byte_def)
next
  case (Cons x xs)
  show ?case
  proof (cases b)
    case Nil
    with Cons.prems show ?thesis by (simp add: Address_String_def hex_byte_def)
  next
    case (Cons y ys)
    from Cons.prems Cons have e: "hex_byte x @ Address_String xs = hex_byte y @ Address_String ys"
      by (simp add: Address_String_def)
    have "length (hex_byte x) = length (hex_byte y)" by (simp add: hex_byte_def)
    with e have "hex_byte x = hex_byte y" "Address_String xs = Address_String ys"
      by simp_all
    with Cons.IH Cons show ?thesis by (simp add: hex_byte_inj)
  qed
qed

section \<open>The checks as functions of the store\<close>

lemma checkIndexes_fn_eq:
  "checkIndexes_fn st RetrievalData srcStr dstStr it (msgs, log) =
     ((False, None),
      (msgs @ (if spec_present st it then [] else [violation_msg srcStr dstStr (Address it)]),
       log @ [OpHas RetrievalData (Address it)]))"
  by (cases "db_Has st RetrievalData (Address it)")
     (auto simp add: checkIndexes_fn_def Index_Has_def spec_present_def retrievalData_EncodeKey_def)

lemma Iterate_checkIndexes_fn:
  "Iterate_items xs e (checkIndexes_fn st RetrievalData srcStr dstStr) (msgs, log) =
     (e, (msgs @ map (\<lambda>it. violation_msg srcStr dstStr (Address it))
                   (filter (\<lambda>it. \<not> spec_present st it) xs),
          log @ map (\<lambda>it. OpHas RetrievalData (Address it)) xs))"
  by (induction xs arbitrary: msgs log) (simp_all add: checkIndexes_fn_eq)

lemma checkIndexes_spec:
  "checkIndexes st src RetrievalData srcStr ''retrievalDataIndex'' log =
     (spec_referential st src srcStr, log @ spec_referential_ops st src)"
  by (simp add: checkIndexes_def Index_Iterate_def Iterate_checkIndexes_fn
      spec_referential_def spec_referential_ops_def)

lemma scan_fn_eq:
  "scan_fn st it ((incs, cors), log) =
     ((False, None),
      ((incs @ spec_scan_inconsistency st it,
        cors @ (if spec_corrupt st it then [corruption_msg (Address it)] else [])),
       log @ spec_scan_reads st it))"
  by (simp add: scan_fn_def Store_Read_def spec_scan_inconsistency_def spec_corrupt_def
      spec_scan_reads_def split: sum.splits)

lemma Iterate_scan_fn:
  "Iterate_items xs e (scan_fn st) ((incs, cors), log) =
     (e, ((incs @ concat (map (spec_scan_inconsistency st) xs),
           cors @ map (\<lambda>it. corruption_msg (Address it)) (filter (spec_corrupt st) xs)),
          log @ concat (map (spec_scan_reads st) xs)))"
  by (induction xs arbitrary: incs cors log) (simp_all add: scan_fn_eq)

lemma audit_inconsistencies:
  "inconsistencies_of (audit st) =
     concat (map (\<lambda>(src, srcStr). spec_referential st src srcStr) secondary_indexes)
     @ spec_counter st
     @ concat (map (spec_scan_inconsistency st) (fst (iterate_result st RetrievalData)))"
  by (simp add: audit_def checkIndexes_spec Field_Get_def Index_Count_def Index_Iterate_def
      Iterate_scan_fn secondary_indexes_def spec_counter_def Let_def split_def)

lemma audit_corruptions:
  "corruptions_of (audit st) =
     map (\<lambda>it. corruption_msg (Address it))
       (filter (spec_corrupt st) (fst (iterate_result st RetrievalData)))"
  by (simp add: audit_def checkIndexes_spec Field_Get_def Index_Count_def Index_Iterate_def
      Iterate_scan_fn Let_def split_def)

lemma audit_oplog:
  "oplog (audit st) =
     concat (map (\<lambda>(src, srcStr). spec_referential_ops st src) secondary_indexes)
     @ [OpGet ''gc-size'', OpGet ''reserve-size'', OpCount RetrievalData, OpIterate RetrievalData]
     @ concat (map (spec_scan_reads st) (fst (iterate_result st RetrievalData)))"
  by (simp add: audit_def checkIndexes_spec Field_Get_def Index_Count_def Index_Iterate_def
      Iterate_scan_fn secondary_indexes_def Let_def split_def)

lemma audit_stdout:
  "stdout (audit st) = report (inconsistencies_of (audit st)) (corruptions_of (audit st))"
  by (simp add: audit_def Let_def split_def)

lemma uint_sum:
  "uint (g::uint64) + uint (r::uint64) < 2 ^ 63 \<Longrightarrow> uint (g + r) = uint g + uint r"
proof -
  assume a: "uint g + uint r < 2 ^ 63"
  have "uint g + uint r < 2 ^ LENGTH(64)" using a by simp
  then show ?thesis by (simp only: uint_add_lem)
qed

lemma sint_sum:
  "uint (g::uint64) + uint (r::uint64) < 2 ^ 63 \<Longrightarrow> sint (g + r) = uint g + uint r"
proof -
  assume a: "uint g + uint r < 2 ^ 63"
  have u: "uint (g + r) = uint g + uint r" using a by (rule uint_sum)
  have lo: "- (2 ^ 63) \<le> uint g + uint r"
    by (rule order_trans[of _ 0]) simp_all
  have "sint (g + r) = signed_take_bit 63 (uint (g + r))"
    by (simp add: sint_uint)
  also have "\<dots> = uint g + uint r"
    unfolding u by (rule signed_take_bit_int_eq_self[OF lo a])
  finally show ?thesis .
qed

lemma print_each_eq: "print_each label vs out = out @ map (\<lambda>v. label @ v @ ''\<newline>'') vs"
  by (induction vs arbitrary: out) simp_all

lemma report_eq:
  "report incs cors =
     [''Check complete'']
     @ (if incs = [] then []
        else (''Found '' @ fmt_d (int (length incs)) @ '' inconsistencies in indexes\<newline>'')
             # map (\<lambda>v. ''INCONSISTENCY: '' @ v @ ''\<newline>'') incs)
     @ (if cors = [] then []
        else (''Found '' @ fmt_d (int (length cors)) @ '' data corruptions\<newline>'')
             # map (\<lambda>v. ''DATA CORRUPTION: '' @ v @ ''\<newline>'') cors)
     @ (if incs = [] \<and> cors = [] then [''No inconsistencies or corruptions found\<newline>''] else [])"
  by (simp add: report_def print_each_eq Let_def)

lemma spec_unchanged:
  "spec_referential (st\<lparr>field_Get := fg, db_Count := dc\<rparr>) = spec_referential st"
  "spec_referential_ops (st\<lparr>field_Get := fg, db_Count := dc\<rparr>) = spec_referential_ops st"
  "spec_scan_inconsistency (st\<lparr>field_Get := fg, db_Count := dc\<rparr>) = spec_scan_inconsistency st"
  "spec_corrupt (st\<lparr>field_Get := fg, db_Count := dc\<rparr>) = spec_corrupt st"
  "spec_scan_reads (st\<lparr>field_Get := fg, db_Count := dc\<rparr>) = spec_scan_reads st"
  by (simp_all add: fun_eq_iff spec_referential_def spec_present_def spec_referential_ops_def
      spec_scan_inconsistency_def spec_corrupt_def spec_scan_reads_def split: sum.splits)

section \<open>Facts about the value decoders and about start-up\<close>

lemma Uint64_take8: "8 \<le> length xs \<Longrightarrow> \<exists>c. Uint64 (take 8 xs) = Ok c"
  by (simp add: Uint64_def)

lemma retrievalData_DecodeValue_unfold:
  assumes "headerSize pk \<le> cap_of v"
  shows "\<exists>ts bin. retrievalData_DecodeValue pk k v =
     (case UnmarshalBinary pk (take (StampSize pk) (drop 16 (visible v @ beyond v))) of
        Inl err \<Rightarrow> Ok (zero_item\<lparr>StoreTimestamp := ts, BinID := bin\<rparr>, Some err)
      | Inr st \<Rightarrow>
          if headerSize pk \<le> length (visible v)
          then Ok (zero_item\<lparr>StoreTimestamp := ts, BinID := bin, BatchID := stampBatchID st,
                     Index := stampIndex st, Timestamp := stampTimestamp st, Sig := stampSig st,
                     Location := drop (headerSize pk) (visible v)\<rparr>, None)
          else Panic)"
proof -
  from assms have l: "16 \<le> length (visible v @ beyond v)"
    by (simp add: headerSize_def cap_of_def)
  then have "8 \<le> length (drop 8 (visible v @ beyond v))" by simp
  then obtain ts where ts: "Uint64 (take 8 (drop 8 (visible v @ beyond v))) = Ok ts"
    using Uint64_take8 by blast
  from l have "8 \<le> length (visible v @ beyond v)" by simp
  then obtain bin where bin: "Uint64 (take 8 (visible v @ beyond v)) = Ok bin"
    using Uint64_take8 by blast
  from assms l ts bin have "retrievalData_DecodeValue pk k v =
     (case UnmarshalBinary pk (take (StampSize pk) (drop 16 (visible v @ beyond v))) of
        Inl err \<Rightarrow> Ok (zero_item\<lparr>StoreTimestamp := ts, BinID := bin\<rparr>, Some err)
      | Inr st \<Rightarrow>
          if headerSize pk \<le> length (visible v)
          then Ok (zero_item\<lparr>StoreTimestamp := ts, BinID := bin, BatchID := stampBatchID st,
                     Index := stampIndex st, Timestamp := stampTimestamp st, Sig := stampSig st,
                     Location := drop (headerSize pk) (visible v)\<rparr>, None)
          else Panic)"
    by (simp add: retrievalData_DecodeValue_def reslice_def reslice_to_def reslice_from_def
        headerSize_def cap_of_def Let_def split: sum.splits
        del: take_append drop_append length_append)
  then show ?thesis by blast
qed

lemma dirFS_Open_umask: "umask (snd (dirFS_Open d p os)) = umask os"
  by (simp add: dirFS_Open_def os_OpenFile_def split: option.splits)

lemma dirFS_Open_files:
  "files (snd (dirFS_Open d p os)) q =
     (if q = filepath_Join (basedir d) p \<and> files os q = None \<and> permitted os q
      then Some \<lparr>file_content = [], file_mode = 420 AND NOT (umask os)\<rparr>
      else files os q)"
  by (auto simp add: dirFS_Open_def os_OpenFile_def split: option.splits)

lemma open_all_umask: "umask (snd (open_all d ps os)) = umask os"
proof (induction ps arbitrary: os)
  case Nil
  then show ?case by simp
next
  case (Cons p ps)
  show ?case
  proof (cases "dirFS_Open d p os")
    case (Pair r os')
    then have u: "umask os' = umask os"
      using dirFS_Open_umask [of d p os] by simp
    from Pair Cons.IH [of os'] u show ?thesis
      by (cases r) simp_all
  qed
qed

lemma open_all_kept:
  "files os q = Some f \<Longrightarrow> files (snd (open_all d ps os)) q = Some f"
proof (induction ps arbitrary: os)
  case Nil
  then show ?case by simp
next
  case (Cons p ps)
  show ?case
  proof (cases "dirFS_Open d p os")
    case (Pair r os')
    then have k: "files os' q = Some f"
      using dirFS_Open_files [of d p os q] Cons.prems by simp
    from Pair Cons.IH [OF k] k show ?thesis
      by (cases r) simp_all
  qed
qed

lemma open_all_changed:
  "files (snd (open_all d ps os)) q \<noteq> files os q \<Longrightarrow>
     files os q = None \<and> q \<in> set (map (filepath_Join (basedir d)) ps)
     \<and> files (snd (open_all d ps os)) q
         = Some \<lparr>file_content = [], file_mode = 420 AND NOT (umask os)\<rparr>"
proof (induction ps arbitrary: os)
  case Nil
  then show ?case by simp
next
  case (Cons p ps)
  show ?case
  proof (cases "dirFS_Open d p os")
    case (Pair r os')
    then have os': "os' = snd (dirFS_Open d p os)" by simp
    have u: "umask os' = umask os"
      unfolding os' by (rule dirFS_Open_umask)
    show ?thesis
    proof (cases "files os' q = files os q")
      case True
      show ?thesis
      proof (cases r)
        case (Inl err)
        with Pair Cons.prems True show ?thesis by simp
      next
        case (Inr fh)
        with Pair Cons.prems True have "files (snd (open_all d ps os')) q \<noteq> files os' q"
          by simp
        from Cons.IH [OF this] True u Pair Inr show ?thesis by simp
      qed
    next
      case False
      then have c: "q = filepath_Join (basedir d) p" "files os q = None"
        "files os' q = Some \<lparr>file_content = [], file_mode = 420 AND NOT (umask os)\<rparr>"
        unfolding os' using dirFS_Open_files [of d p os q] by (simp_all split: if_splits)
      have "files (snd (open_all d (p # ps) os)) q
              = Some \<lparr>file_content = [], file_mode = 420 AND NOT (umask os)\<rparr>"
      proof (cases r)
        case (Inl err)
        with Pair c show ?thesis by simp
      next
        case (Inr fh)
        with Pair open_all_kept [OF c(3), of d ps] show ?thesis by simp
      qed
      with c show ?thesis by simp
    qed
  qed
qed

lemma bind_all_calls:
  "\<forall>c \<in> set (snd (snd (bind_all steps oc))). c \<in> set (snd oc) \<or> (\<exists>op. c = Opening op)"
  by (induction steps oc rule: bind_all.induct) (auto split: option.splits)

lemma bind_all_ok:
  "list_all (\<lambda>b. fst (snd b) = None) steps \<Longrightarrow>
     bind_all steps oc = (True, fst oc, snd oc @ map (\<lambda>b. Opening (fst b)) steps)"
  by (induction steps oc rule: bind_all.induct) auto

lemma audit_reads: "\<forall>op \<in> set (oplog (audit st)). is_read op"
  by (auto simp add: audit_oplog secondary_indexes_def spec_referential_ops_def
      spec_scan_reads_def split: sum.splits)

lemma after_NewDB_calls:
  "\<forall>c \<in> set (fst (snd (after_NewDB w path))).
     (\<exists>op. c = Opening op) \<or> (\<exists>op. c = OnStore op \<and> is_read op)"
proof -
  let ?oc = "([], [Opening SharkyNew, Opening (NewStringField ''schema-name''),
                   OnStore (OpGet ''schema-name'')]) :: string list \<times> 'a call list"
  have b: "\<forall>c \<in> set (snd (snd (bind_all (bindings w) ?oc))).
             (\<exists>op. c = Opening op) \<or> (\<exists>op. c = OnStore op \<and> is_read op)"
    using bind_all_calls [of "bindings w" ?oc] by auto
  show ?thesis
    using b audit_reads [of "opened_store w"]
    by (auto simp add: after_NewDB_def Let_def split_def)
qed

lemma main_os_after:
  "os_after (main w path) = os_before w
   \<or> os_after (main w path)
       = snd (open_all \<lparr>basedir = filepath_Join path ''sharky''\<rparr> (sharky_files w) (os_before w))"
  by (simp add: main_def after_NewDB_def sharky_New_def Let_def split_def split: option.splits)

lemma main_calls_ok:
  "startup_ok w path \<Longrightarrow>
     calls (main w path) =
       Opening (NewDB path) # Opening SharkyNew # Opening (NewStringField ''schema-name'')
       # OnStore (OpGet ''schema-name'')
       # map (\<lambda>b. Opening (fst b)) (bindings w)
       @ map OnStore (oplog (audit (opened_store w))) @ [Closing]"
  by (simp add: startup_ok_def main_def after_NewDB_def Let_def split_def bind_all_ok)

section \<open>Referential integrity\<close>

text \<open>
  Claim C1. A referential-integrity check against the primary index visits every record
  the source index delivers, in key order, and emits one violation message for each
  record whose lookup in the primary index does not report presence (it reports
  absence, or an error): the message names the source index, the destination index and
  the address, and messages for different addresses differ. Records reported present
  produce nothing. The list ends with the
  critical message when the iteration itself failed. The audit runs the check for the
  seven secondary indexes, in the order of the source, and its findings open the list of
  inconsistencies. Every point lookup of the whole audit is a lookup in the primary
  index: the direction from the primary index to a secondary one is never checked.
\<close>

theorem referential_integrity:
  "checkIndexes st src RetrievalData srcStr ''retrievalDataIndex'' log =
     (map (\<lambda>it. ''item in '' @ srcStr @ '' and not in retrievalDataIndex '' @ Address_String (Address it))
        (filter (\<lambda>it. \<not> spec_present st it) (fst (iterate_result st src)))
      @ (if snd (iterate_result st src) = None then [] else [critical_msg srcStr]),
      log @ OpIterate src # map (\<lambda>it. OpHas RetrievalData (Address it)) (fst (iterate_result st src)))
   \<and> (\<exists>rest. inconsistencies_of (audit st) =
         concat (map (\<lambda>(src, srcStr). fst (checkIndexes st src RetrievalData srcStr ''retrievalDataIndex'' []))
                   secondary_indexes) @ rest)
   \<and> (\<forall>idx key. OpHas idx key \<in> set (oplog (audit st)) \<longrightarrow> idx = RetrievalData)
   \<and> (\<forall>a b. ''item in '' @ srcStr @ '' and not in retrievalDataIndex '' @ Address_String a
              = ''item in '' @ srcStr @ '' and not in retrievalDataIndex '' @ Address_String b
            \<longrightarrow> a = b)"
proof (intro conjI)
  show "checkIndexes st src RetrievalData srcStr ''retrievalDataIndex'' log =
     (map (\<lambda>it. ''item in '' @ srcStr @ '' and not in retrievalDataIndex '' @ Address_String (Address it))
        (filter (\<lambda>it. \<not> spec_present st it) (fst (iterate_result st src)))
      @ (if snd (iterate_result st src) = None then [] else [critical_msg srcStr]),
      log @ OpIterate src # map (\<lambda>it. OpHas RetrievalData (Address it)) (fst (iterate_result st src)))"
    by (simp add: checkIndexes_spec spec_referential_def spec_referential_ops_def violation_msg_def)
  show "\<exists>rest. inconsistencies_of (audit st) =
         concat (map (\<lambda>(src, srcStr). fst (checkIndexes st src RetrievalData srcStr ''retrievalDataIndex'' []))
                   secondary_indexes) @ rest"
    by (simp add: audit_inconsistencies checkIndexes_spec)
  show "\<forall>idx key. OpHas idx key \<in> set (oplog (audit st)) \<longrightarrow> idx = RetrievalData"
    by (auto simp add: audit_oplog secondary_indexes_def spec_referential_ops_def
        spec_scan_reads_def split: sum.splits)
  show "\<forall>a b. ''item in '' @ srcStr @ '' and not in retrievalDataIndex '' @ Address_String a
              = ''item in '' @ srcStr @ '' and not in retrievalDataIndex '' @ Address_String b
            \<longrightarrow> a = b"
    by (simp add: Address_String_inj)
qed

theorem referential_integrity_witness:
  "fst (checkIndexes ex_store Pin RetrievalData ''pinIdx'' ''retrievalDataIndex'' []) =
     [''item in pinIdx and not in retrievalDataIndex bbbbbbbbbbbbbbbbbbbbbbbbbbbbbbbbbbbbbbbbbbbbbbbbbbbbbbbbbbbbbbbb'']
   \<and> OpHas RetrievalData addrB \<in> set (oplog (audit ex_store))
   \<and> spec_present ex_store itemA \<and> \<not> spec_present ex_store itemB"
proof -
  have e: "map (\<lambda>it. ''item in '' @ ''pinIdx'' @ '' and not in retrievalDataIndex '' @ Address_String (Address it))
        (filter (\<lambda>it. \<not> spec_present ex_store it) (fst (iterate_result ex_store Pin)))
      @ (if snd (iterate_result ex_store Pin) = None then [] else [critical_msg ''pinIdx''])
     = [''item in pinIdx and not in retrievalDataIndex bbbbbbbbbbbbbbbbbbbbbbbbbbbbbbbbbbbbbbbbbbbbbbbbbbbbbbbbbbbbbbbb'']"
    by code_simp
  have h: "OpHas RetrievalData addrB \<in> set (oplog (audit ex_store))"
    by code_simp
  have p: "spec_present ex_store itemA \<and> \<not> spec_present ex_store itemB"
    by code_simp
  from referential_integrity [of ex_store Pin "''pinIdx''" "[]"] e h p show ?thesis
    by simp
qed

section \<open>Content integrity\<close>

text \<open>
  Claim C2. The corruption findings of the audit are, in the order of the scan, one
  finding \<open>address <hex>\<close> for each primary record whose location decodes, whose blob
  read succeeds, and whose data satisfies neither the content-addressed scheme nor the
  single-owner scheme. For one record with a decodable location and a successful read,
  the visitor appends that finding to the corruptions exactly when both schemes reject
  the chunk; it leaves the inconsistencies as they were, reads the blob once and lets the
  scan continue. Findings for different addresses differ.
\<close>

theorem content_scan_corruption:
  "corruptions_of (audit st) =
     map (\<lambda>it. ''address '' @ Address_String (Address it))
       (filter (spec_corrupt st) (fst (iterate_result st RetrievalData)))
   \<and> (LocationFromBinary st (Location it) = Inr l \<and> sharky_Read st l = Inr data \<longrightarrow>
        scan_fn st it ((incs, cors), log) =
          ((False, None),
           ((incs,
             cors @ (if cac_Valid st (Address it) data \<or> soc_Valid st (Address it) data then []
                     else [''address '' @ Address_String (Address it)])),
            log @ [OpRead l]))
        \<and> (spec_corrupt st it \<longleftrightarrow> \<not> cac_Valid st (Address it) data \<and> \<not> soc_Valid st (Address it) data))
   \<and> (\<forall>a b. ''address '' @ Address_String a = ''address '' @ Address_String b \<longrightarrow> a = b)"
  by (simp add: audit_corruptions corruption_msg_def scan_fn_eq spec_scan_inconsistency_def
      spec_corrupt_def spec_scan_reads_def Address_String_inj)

theorem content_scan_corruption_witness:
  "LocationFromBinary ex_store (Location itemD) = Inr 3 \<and> sharky_Read ex_store 3 = Inr [9]
   \<and> scan_fn ex_store itemD (([], []), []) =
       ((False, None),
        (([], [''address dddddddddddddddddddddddddddddddddddddddddddddddddddddddddddddddd'']), [OpRead 3]))
   \<and> LocationFromBinary ex_store (Location itemA) = Inr 1 \<and> sharky_Read ex_store 1 = Inr [7]
   \<and> scan_fn ex_store itemA (([], []), []) = ((False, None), (([], []), [OpRead 1]))
   \<and> corruptions_of (audit ex_store) =
       [''address dddddddddddddddddddddddddddddddddddddddddddddddddddddddddddddddd'']"
proof -
  have d: "LocationFromBinary ex_store (Location itemD) = Inr 3 \<and> sharky_Read ex_store 3 = Inr [9]"
    by code_simp
  have a: "LocationFromBinary ex_store (Location itemA) = Inr 1 \<and> sharky_Read ex_store 1 = Inr [7]"
    by code_simp
  have vd: "(if cac_Valid ex_store (Address itemD) [9] \<or> soc_Valid ex_store (Address itemD) [9] then []
             else [''address '' @ Address_String (Address itemD)])
            = [''address dddddddddddddddddddddddddddddddddddddddddddddddddddddddddddddddd'']"
    by code_simp
  have va: "(if cac_Valid ex_store (Address itemA) [7] \<or> soc_Valid ex_store (Address itemA) [7] then []
             else [''address '' @ Address_String (Address itemA)]) = []"
    by code_simp
  have c: "map (\<lambda>it. ''address '' @ Address_String (Address it))
             (filter (spec_corrupt ex_store) (fst (iterate_result ex_store RetrievalData)))
           = [''address dddddddddddddddddddddddddddddddddddddddddddddddddddddddddddddddd'']"
    by code_simp
  from content_scan_corruption [of ex_store itemD 3 "[9]" "[]" "[]" "[]"]
       content_scan_corruption [of ex_store itemA 1 "[7]" "[]" "[]" "[]"] d a vd va c
  show ?thesis by simp
qed

section \<open>The counter bound\<close>

text \<open>
  Claim C3, as amended. The check compares the 64-bit sum \<open>gcSize + reserveSize\<close>,
  converted to a signed integer, with the count, and emits one message carrying the sum
  and the count when it is greater. Whenever the true sum is below \<open>2^63\<close> this is the
  comparison of the claim: one message exactly when \<open>gcSize + reserveSize > count\<close>. With
  6, 5 and 10 the message reports 11 and 10; with 5, 3 and 10 there is none. The audit
  applies the check to the values read from the two counters and the primary index.
\<close>

theorem counter_bound:
  "(uint g + uint r < 2 ^ 63 \<longrightarrow>
      counter_check g r c =
        (if uint g + uint r > sint c
         then [''gcSize+reserveSize('' @ fmt_d (uint g + uint r) @ '') > chunkCount('' @ fmt_d (sint c) @ '')'']
         else []))
   \<and> counter_check g r c =
        (if sint (g + r) > sint c
         then [''gcSize+reserveSize('' @ fmt_d (uint (g + r)) @ '') > chunkCount('' @ fmt_d (sint c) @ '')'']
         else [])
   \<and> counter_check 6 5 10 = [''gcSize+reserveSize(11) > chunkCount(10)'']
   \<and> counter_check 5 3 10 = []
   \<and> inconsistencies_of (audit st) =
        concat (map (\<lambda>(src, srcStr). spec_referential st src srcStr) secondary_indexes)
        @ counter_check (fst (field_Get st ''gc-size'')) (fst (field_Get st ''reserve-size''))
            (fst (db_Count st RetrievalData))
        @ concat (map (spec_scan_inconsistency st) (fst (iterate_result st RetrievalData)))"
proof (intro conjI impI)
  assume a: "uint g + uint r < 2 ^ 63"
  show "counter_check g r c =
        (if uint g + uint r > sint c
         then [''gcSize+reserveSize('' @ fmt_d (uint g + uint r) @ '') > chunkCount('' @ fmt_d (sint c) @ '')'']
         else [])"
    by (simp add: counter_check_def counter_msg_def sint_sum [OF a] uint_sum [OF a])
next
  show "counter_check g r c =
        (if sint (g + r) > sint c
         then [''gcSize+reserveSize('' @ fmt_d (uint (g + r)) @ '') > chunkCount('' @ fmt_d (sint c) @ '')'']
         else [])"
    by (simp add: counter_check_def counter_msg_def)
next
  show "counter_check 6 5 10 = [''gcSize+reserveSize(11) > chunkCount(10)'']"
    by code_simp
next
  show "counter_check 5 3 10 = []"
    by code_simp
next
  show "inconsistencies_of (audit st) =
        concat (map (\<lambda>(src, srcStr). spec_referential st src srcStr) secondary_indexes)
        @ counter_check (fst (field_Get st ''gc-size'')) (fst (field_Get st ''reserve-size''))
            (fst (db_Count st RetrievalData))
        @ concat (map (spec_scan_inconsistency st) (fst (iterate_result st RetrievalData)))"
    by (simp add: audit_inconsistencies spec_counter_def)
qed

theorem counter_bound_witness:
  "uint (6 :: uint64) + uint (5 :: uint64) < 2 ^ 63
   \<and> counter_check 6 5 10 = [''gcSize+reserveSize(11) > chunkCount(10)'']
   \<and> uint (5 :: uint64) + uint (3 :: uint64) < 2 ^ 63
   \<and> counter_check 5 3 10 = []"
proof -
  have h: "uint (6 :: uint64) + uint (5 :: uint64) < 2 ^ 63" "uint (5 :: uint64) + uint (3 :: uint64) < 2 ^ 63"
    by simp_all
  from counter_bound [of 6 5 10 ex_store] h(1)
  have "counter_check 6 5 10 =
        (if uint (6 :: uint64) + uint (5 :: uint64) > sint (10 :: uint64)
         then [''gcSize+reserveSize('' @ fmt_d (uint (6 :: uint64) + uint (5 :: uint64))
                 @ '') > chunkCount('' @ fmt_d (sint (10 :: uint64)) @ '')'']
         else [])"
    by blast
  also have "\<dots> = [''gcSize+reserveSize(11) > chunkCount(10)'']"
    by code_simp
  finally have c: "counter_check 6 5 10 = [''gcSize+reserveSize(11) > chunkCount(10)'']" .
  from counter_bound [of 5 3 10 ex_store] h(2)
  have "counter_check 5 3 10 =
        (if uint (5 :: uint64) + uint (3 :: uint64) > sint (10 :: uint64)
         then [''gcSize+reserveSize('' @ fmt_d (uint (5 :: uint64) + uint (3 :: uint64))
                 @ '') > chunkCount('' @ fmt_d (sint (10 :: uint64)) @ '')'']
         else [])"
    by blast
  also have "\<dots> = []"
    by code_simp
  finally have d: "counter_check 5 3 10 = []" .
  show ?thesis
    by (intro conjI) (rule h c d)+
qed

text \<open>With \<open>gcSize = 2^63\<close>, \<open>reserveSize = 0\<close> and a count of 10 the sum exceeds the
  count, yet the signed reading of the sum is negative and nothing is emitted.\<close>

theorem counter_bound_counterexample:
  "counter_check 9223372036854775808 0 10 = []
   \<and> uint (9223372036854775808 :: uint64) + uint (0 :: uint64) > sint (10 :: uint64)"
  by code_simp

text \<open>
  Claim C10. The errors returned by the reads of \<open>gc-size\<close>, of \<open>reserve-size\<close> and of
  the primary index's count are discarded: whatever errors the three reads return beside
  their values, the audit's findings, its operations and its output are the same. No
  finding comes from such an error; the one finding of this step is the counter-bound
  message, and it is there exactly when the sum of the two values returned, read as a
  signed number, is greater than the count returned, be those values zero or not.
\<close>

theorem counter_read_errors_ignored:
  "audit (st\<lparr>field_Get := (\<lambda>n. (fst (field_Get st n), ef n)),
              db_Count := (\<lambda>i. (fst (db_Count st i), ec i))\<rparr>) = audit st
   \<and> inconsistencies_of (audit st) =
        concat (map (\<lambda>(src, srcStr). spec_referential st src srcStr) secondary_indexes)
        @ (if sint (fst (field_Get st ''gc-size'') + fst (field_Get st ''reserve-size''))
                > sint (fst (db_Count st RetrievalData))
           then [''gcSize+reserveSize(''
                   @ fmt_d (uint (fst (field_Get st ''gc-size'') + fst (field_Get st ''reserve-size'')))
                   @ '') > chunkCount('' @ fmt_d (sint (fst (db_Count st RetrievalData))) @ '')'']
           else [])
        @ concat (map (spec_scan_inconsistency st) (fst (iterate_result st RetrievalData)))"
proof (intro conjI)
  let ?st' = "st\<lparr>field_Get := (\<lambda>n. (fst (field_Get st n), ef n)),
              db_Count := (\<lambda>i. (fst (db_Count st i), ec i))\<rparr>"
  have c: "spec_counter ?st' = spec_counter st"
    by (simp add: spec_counter_def)
  have i: "inconsistencies_of (audit ?st') = inconsistencies_of (audit st)"
    by (simp only: audit_inconsistencies spec_unchanged c) simp
  have k: "corruptions_of (audit ?st') = corruptions_of (audit st)"
    by (simp only: audit_corruptions spec_unchanged) simp
  have l: "oplog (audit ?st') = oplog (audit st)"
    by (simp only: audit_oplog spec_unchanged) simp
  have s: "stdout (audit ?st') = stdout (audit st)"
    by (simp only: audit_stdout i k)
  show "audit ?st' = audit st"
    using i k l s by (intro run.equality) simp_all
  show "inconsistencies_of (audit st) =
        concat (map (\<lambda>(src, srcStr). spec_referential st src srcStr) secondary_indexes)
        @ (if sint (fst (field_Get st ''gc-size'') + fst (field_Get st ''reserve-size''))
                > sint (fst (db_Count st RetrievalData))
           then [''gcSize+reserveSize(''
                   @ fmt_d (uint (fst (field_Get st ''gc-size'') + fst (field_Get st ''reserve-size'')))
                   @ '') > chunkCount('' @ fmt_d (sint (fst (db_Count st RetrievalData))) @ '')'']
           else [])
        @ concat (map (spec_scan_inconsistency st) (fst (iterate_result st RetrievalData)))"
    by (simp add: audit_inconsistencies spec_counter_def counter_check_def counter_msg_def)
qed

theorem counter_read_errors_ignored_witness:
  "snd (field_Get (ex_store_counters 6 5 10) ''gc-size'') = Some ''leveldb: not found''
   \<and> snd (field_Get (ex_store_counters 6 5 10) ''reserve-size'') = Some ''leveldb: not found''
   \<and> snd (db_Count (ex_store_counters 6 5 10) RetrievalData) = Some ''leveldb: closed''
   \<and> inconsistencies_of (audit (ex_store_counters 6 5 10))
       = [''gcSize+reserveSize(11) > chunkCount(10)'']
   \<and> inconsistencies_of (audit (ex_store_counters 1 0 0))
       = [''gcSize+reserveSize(1) > chunkCount(0)'']
   \<and> inconsistencies_of (audit (ex_store_counters 5 3 10)) = []
   \<and> stdout (audit (ex_store_counters 1 0 0))
       = [''Check complete'', ''Found 1 inconsistencies in indexes\<newline>'',
          ''INCONSISTENCY: gcSize+reserveSize(1) > chunkCount(0)\<newline>'']
   \<and> audit ((ex_store_counters 6 5 10)\<lparr>
          field_Get := (\<lambda>n. (fst (field_Get (ex_store_counters 6 5 10) n), None)),
          db_Count := (\<lambda>i. (fst (db_Count (ex_store_counters 6 5 10) i), None))\<rparr>)
       = audit (ex_store_counters 6 5 10)"
proof -
  have e: "snd (field_Get (ex_store_counters 6 5 10) ''gc-size'') = Some ''leveldb: not found''"
    "snd (field_Get (ex_store_counters 6 5 10) ''reserve-size'') = Some ''leveldb: not found''"
    "snd (db_Count (ex_store_counters 6 5 10) RetrievalData) = Some ''leveldb: closed''"
    by code_simp+
  have r: "\<And>g r c. concat (map (\<lambda>(src, srcStr). spec_referential (ex_store_counters g r c) src srcStr)
                 secondary_indexes) = []"
    by (simp add: secondary_indexes_def spec_referential_def ex_store_counters_def)
  have s: "\<And>g r c. concat (map (spec_scan_inconsistency (ex_store_counters g r c))
                 (fst (iterate_result (ex_store_counters g r c) RetrievalData))) = []"
    by (simp add: ex_store_counters_def)
  have v: "\<And>g r c. fst (field_Get (ex_store_counters g r c) ''gc-size'') = g
          \<and> fst (field_Get (ex_store_counters g r c) ''reserve-size'') = r
          \<and> fst (db_Count (ex_store_counters g r c) RetrievalData) = c"
    by (simp add: ex_store_counters_def)
  have f: "fmt_d (uint (6 + 5 :: uint64)) = ''11''" "fmt_d (sint (10 :: uint64)) = ''10''"
    "fmt_d (uint (1 + 0 :: uint64)) = ''1''" "fmt_d (sint (0 :: uint64)) = ''0''"
    by code_simp+
  from counter_read_errors_ignored [where st = "ex_store_counters 6 5 10"] r s v f
  have 1: "inconsistencies_of (audit (ex_store_counters 6 5 10))
       = [''gcSize+reserveSize(11) > chunkCount(10)'']"
    by simp
  from counter_read_errors_ignored [where st = "ex_store_counters 1 0 0"] r s v f
  have 2: "inconsistencies_of (audit (ex_store_counters 1 0 0))
       = [''gcSize+reserveSize(1) > chunkCount(0)'']"
    by simp
  from counter_read_errors_ignored [where st = "ex_store_counters 5 3 10"] r s v
  have 3: "inconsistencies_of (audit (ex_store_counters 5 3 10)) = []"
    by simp
  have 4: "stdout (audit (ex_store_counters 1 0 0))
       = [''Check complete'', ''Found 1 inconsistencies in indexes\<newline>'',
          ''INCONSISTENCY: gcSize+reserveSize(1) > chunkCount(0)\<newline>'']"
    by code_simp
  from counter_read_errors_ignored [where st = "ex_store_counters 6 5 10"
      and ef = "\<lambda>n. None" and ec = "\<lambda>i. None"]
  have 5: "audit ((ex_store_counters 6 5 10)\<lparr>
          field_Get := (\<lambda>n. (fst (field_Get (ex_store_counters 6 5 10) n), None)),
          db_Count := (\<lambda>i. (fst (db_Count (ex_store_counters 6 5 10) i), None))\<rparr>)
       = audit (ex_store_counters 6 5 10)"
    by blast
  from e 1 2 3 4 5 show ?thesis
    by (intro conjI)
qed

section \<open>Failures during the content scan\<close>

text \<open>
  Claim C4, evaluated on the example store. The record \<open>itemB\<close> has a location that
  decodes and a blob that cannot be read: the scan records the single inconsistency
  \<open>cannot read location from sharky EOF\<close>, reads once, and continues. The same record
  under another address gives the same message: the message does not name the address.
  The record \<open>itemC\<close>, whose location does not decode, gives one inconsistency that
  does name its address.
\<close>

theorem read_failure_message:
  "scan_fn ex_store itemB (([], []), []) =
     ((False, None), (([''cannot read location from sharky EOF''], []), [OpRead 2]))
   \<and> scan_fn ex_store (itemB\<lparr>Address := addrD\<rparr>) (([], []), []) =
     ((False, None), (([''cannot read location from sharky EOF''], []), [OpRead 2]))
   \<and> Address itemB \<noteq> addrD
   \<and> scan_fn ex_store itemC (([], []), []) =
     ((False, None),
      (([''invalid sharky location for item cccccccccccccccccccccccccccccccccccccccccccccccccccccccccccccccc err: short buffer''], []), []))"
  by code_simp

text \<open>
  Claim C5, evaluated on an empty store. When the iteration over the primary index fails
  during the content scan, nothing is recorded and the report says that no
  inconsistencies or corruptions were found; when the iteration over a secondary index
  fails (here the pin index), the critical message naming it is recorded.
\<close>

theorem primary_iteration_failure_silent:
  "inconsistencies_of (audit (ex_store_iter_fails RetrievalData)) = []
   \<and> corruptions_of (audit (ex_store_iter_fails RetrievalData)) = []
   \<and> stdout (audit (ex_store_iter_fails RetrievalData)) =
       [''Check complete'', ''No inconsistencies or corruptions found\<newline>'']
   \<and> inconsistencies_of (audit (ex_store_iter_fails Pin)) = [''CRITICAL: failed checking pinIdx index'']"
  by code_simp

section \<open>The report\<close>

text \<open>
  Claim C9. The report prints \<open>Check complete\<close>; then, if there are inconsistencies,
  their number followed by one line for each, in order; then, if there are corruptions,
  their number followed by one line for each, in order; and, if both lists are empty,
  the line saying that none were found. Nothing is filtered or merged. The lists printed
  are the ones the audit accumulated: the seven referential checks, the counter bound
  and the content scan, appended in that order.
\<close>

theorem final_report:
  "report incs cors =
     [''Check complete'']
     @ (if incs = [] then []
        else (''Found '' @ fmt_d (int (length incs)) @ '' inconsistencies in indexes\<newline>'')
             # map (\<lambda>v. ''INCONSISTENCY: '' @ v @ ''\<newline>'') incs)
     @ (if cors = [] then []
        else (''Found '' @ fmt_d (int (length cors)) @ '' data corruptions\<newline>'')
             # map (\<lambda>v. ''DATA CORRUPTION: '' @ v @ ''\<newline>'') cors)
     @ (if incs = [] \<and> cors = [] then [''No inconsistencies or corruptions found\<newline>''] else [])
   \<and> stdout (audit st) = report (inconsistencies_of (audit st)) (corruptions_of (audit st))
   \<and> inconsistencies_of (audit st) =
        concat (map (\<lambda>(src, srcStr). spec_referential st src srcStr) secondary_indexes)
        @ spec_counter st
        @ concat (map (spec_scan_inconsistency st) (fst (iterate_result st RetrievalData)))
   \<and> corruptions_of (audit st) =
        map (\<lambda>it. corruption_msg (Address it))
          (filter (spec_corrupt st) (fst (iterate_result st RetrievalData)))"
  using report_eq [of incs cors] audit_stdout [of st] audit_inconsistencies [of st]
    audit_corruptions [of st]
  by (intro conjI)

theorem final_report_witness:
  "report [] [] = [''Check complete'', ''No inconsistencies or corruptions found\<newline>'']
   \<and> report [''x'', ''x''] [''y''] =
       [''Check complete'', ''Found 2 inconsistencies in indexes\<newline>'',
        ''INCONSISTENCY: x\<newline>'', ''INCONSISTENCY: x\<newline>'',
        ''Found 1 data corruptions\<newline>'', ''DATA CORRUPTION: y\<newline>'']"
proof -
  have n: "fmt_d (int (length [''x'', ''x''])) = ''2'' \<and> fmt_d (int (length [''y''])) = ''1''"
    by code_simp
  from final_report [of "[]" "[]" ex_store] final_report [of "[''x'', ''x'']" "[''y'']" ex_store] n
  show ?thesis by simp
qed

section \<open>The codecs\<close>

text \<open>
  Claim C7, as amended. For every index, decoding the key that \<open>EncodeKey\<close> builds
  from a record gives back exactly the record fields the index keys on, and nothing else:
  the address for the retrievalData, retrievalAccess and pin indexes; the BinID for the
  pull index; the store timestamp and the address for the push index; the access
  timestamp, the BinID and the address for the gc index; the batch id and the address
  for the postageChunks index; the batch id and the batch index for the postageIndex
  index. Where a field is copied into a slot of fixed width the field must have that
  width: 32 bytes for the address and the batch id, 8 bytes for the batch index. The pull
  key has 9 bytes and the postageChunks key 65: each keeps one byte for the proximity
  order, which is not a field of the record and is not recovered by \<open>DecodeKey\<close>.
\<close>

theorem key_round_trip:
  "retrievalData_DecodeKey (retrievalData_EncodeKey r) = Ok (zero_item\<lparr>Address := Address r\<rparr>)
   \<and> retrievalAccess_DecodeKey (retrievalAccess_EncodeKey r) = Ok (zero_item\<lparr>Address := Address r\<rparr>)
   \<and> pin_DecodeKey (pin_EncodeKey r) = Ok (zero_item\<lparr>Address := Address r\<rparr>)
   \<and> length (pull_EncodeKey r) = 9
   \<and> pull_DecodeKey (pull_EncodeKey r) = Ok (zero_item\<lparr>BinID := BinID r\<rparr>)
   \<and> gc_DecodeKey (gc_EncodeKey r) =
       Ok (zero_item\<lparr>AccessTimestamp := AccessTimestamp r, BinID := BinID r, Address := Address r\<rparr>)
   \<and> (length (Address r) = 32 \<longrightarrow>
        push_DecodeKey (push_EncodeKey r) =
          Ok (zero_item\<lparr>Address := Address r, StoreTimestamp := StoreTimestamp r\<rparr>))
   \<and> length (postageChunks_EncodeKey r) = 65
   \<and> (length (BatchID r) = 32 \<and> length (Address r) = 32 \<longrightarrow>
        postageChunks_DecodeKey (postageChunks_EncodeKey r) =
          Ok (zero_item\<lparr>BatchID := BatchID r, Address := Address r\<rparr>))
   \<and> (length (BatchID r) = 32 \<and> length (Index r) = 8 \<longrightarrow>
        postageIndex_DecodeKey (postageIndex_EncodeKey r) =
          Ok (zero_item\<lparr>BatchID := BatchID r, Index := Index r\<rparr>))"
proof (intro conjI impI)
  show "retrievalData_DecodeKey (retrievalData_EncodeKey r) = Ok (zero_item\<lparr>Address := Address r\<rparr>)"
    by (simp add: retrievalData_DecodeKey_def retrievalData_EncodeKey_def)
  show "retrievalAccess_DecodeKey (retrievalAccess_EncodeKey r) = Ok (zero_item\<lparr>Address := Address r\<rparr>)"
    by (simp add: retrievalAccess_DecodeKey_def retrievalAccess_EncodeKey_def)
  show "pin_DecodeKey (pin_EncodeKey r) = Ok (zero_item\<lparr>Address := Address r\<rparr>)"
    by (simp add: pin_DecodeKey_def pin_EncodeKey_def)
  show "length (pull_EncodeKey r) = 9"
    by (simp add: pull_EncodeKey_def PutUint64_at_def make_bytes_def length_PutUint64)
  show "pull_DecodeKey (pull_EncodeKey r) = Ok (zero_item\<lparr>BinID := BinID r\<rparr>)"
    by (simp add: pull_DecodeKey_def pull_EncodeKey_def PutUint64_at_def make_bytes_def slice_def
        length_PutUint64 Uint64_PutUint64)
  show "gc_DecodeKey (gc_EncodeKey r) =
       Ok (zero_item\<lparr>AccessTimestamp := AccessTimestamp r, BinID := BinID r, Address := Address r\<rparr>)"
    by (simp add: gc_DecodeKey_def gc_EncodeKey_def PutUint64_at_def make_bytes_def slice_def
        slice_from_def slice_to_def Let_def length_PutUint64 Uint64_PutUint64)
  show "length (postageChunks_EncodeKey r) = 65"
    by (simp add: postageChunks_EncodeKey_def copy_at_def copy_bytes_def make_bytes_def Let_def)
next
  assume "length (Address r) = 32"
  then show "push_DecodeKey (push_EncodeKey r) =
          Ok (zero_item\<lparr>Address := Address r, StoreTimestamp := StoreTimestamp r\<rparr>)"
    by (simp add: push_DecodeKey_def push_EncodeKey_def PutUint64_at_def make_bytes_def
        slice_from_def slice_to_def copy_at_def copy_bytes_def Let_def length_PutUint64
        Uint64_PutUint64)
next
  assume "length (BatchID r) = 32 \<and> length (Address r) = 32"
  then show "postageChunks_DecodeKey (postageChunks_EncodeKey r) =
          Ok (zero_item\<lparr>BatchID := BatchID r, Address := Address r\<rparr>)"
    by (simp add: postageChunks_DecodeKey_def postageChunks_EncodeKey_def make_bytes_def
        slice_def slice_to_def copy_at_def copy_bytes_def Let_def)
next
  assume "length (BatchID r) = 32 \<and> length (Index r) = 8"
  then show "postageIndex_DecodeKey (postageIndex_EncodeKey r) =
          Ok (zero_item\<lparr>BatchID := BatchID r, Index := Index r\<rparr>)"
    by (simp add: postageIndex_DecodeKey_def postageIndex_EncodeKey_def make_bytes_def
        slice_def slice_to_def copy_at_def copy_bytes_def Let_def)
qed

theorem key_round_trip_witness:
  "length (Address itemK) = 32 \<and> length (BatchID itemK) = 32 \<and> length (Index itemK) = 8
   \<and> push_DecodeKey (push_EncodeKey itemK) =
       Ok (zero_item\<lparr>Address := Address itemK, StoreTimestamp := StoreTimestamp itemK\<rparr>)
   \<and> postageChunks_DecodeKey (postageChunks_EncodeKey itemK) =
       Ok (zero_item\<lparr>BatchID := BatchID itemK, Address := Address itemK\<rparr>)
   \<and> postageIndex_DecodeKey (postageIndex_EncodeKey itemK) =
       Ok (zero_item\<lparr>BatchID := BatchID itemK, Index := Index itemK\<rparr>)
   \<and> pull_EncodeKey itemK = [0, 0, 0, 0, 0, 0, 0, 0, 5]"
proof -
  have h: "length (Address itemK) = 32" "length (BatchID itemK) = 32" "length (Index itemK) = 8"
    by code_simp+
  have k: "pull_EncodeKey itemK = [0, 0, 0, 0, 0, 0, 0, 0, 5]"
    by code_simp
  from key_round_trip [of itemK] h k show ?thesis
    by simp
qed

text \<open>Two records whose addresses differ in their first bit, so that no base address
  gives them the same proximity order, have the same pull key; the byte kept for the
  proximity order is zero in the pull key and in the postageChunks key of both.\<close>

theorem key_proximity_order_counterexample:
  "pull_EncodeKey (itemK\<lparr>Address := 0 # replicate 31 0\<rparr>) = [0, 0, 0, 0, 0, 0, 0, 0, 5]
   \<and> pull_EncodeKey (itemK\<lparr>Address := 128 # replicate 31 0\<rparr>) = [0, 0, 0, 0, 0, 0, 0, 0, 5]
   \<and> postageChunks_EncodeKey (itemK\<lparr>Address := 0 # replicate 31 0\<rparr>) ! 32 = 0
   \<and> postageChunks_EncodeKey (itemK\<lparr>Address := 128 # replicate 31 0\<rparr>) ! 32 = 0"
  by code_simp

text \<open>
  Claim C6, as amended. No value decoder checks the length of the value against its
  header, and none reports a decode error because the value is short. For a value
  shorter than the header:
  \<^item> the retrievalAccess decoder (8 bytes), the gc decoder (32 bytes of batch id) and the
    postageIndex decoder (32 bytes of address) panic;
  \<^item> the retrievalData decoder (16 bytes and a stamp) panics when the capacity of the
    value is below the header, and also when the stamp decoder accepts the bytes it is
    given; it never returns a record without an error, and the only error it returns is
    the stamp decoder's, on bytes taken in part from beyond the value;
  \<^item> the pin decoder (8 bytes) and the pull decoder (64 bytes) panic when the capacity is
    below the header; with enough spare capacity they return, without an error, a record
    built from bytes beyond the value's length;
  \<^item> the push decoder returns the zero record without an error for every length other
    than 4, and the postageChunks decoder ignores the value.
\<close>

theorem value_decoding_short_input:
  "(length (visible v) < headerSize pk \<longrightarrow>
      (cap_of v < headerSize pk \<longrightarrow> retrievalData_DecodeValue pk k v = Panic)
      \<and> (\<forall>st. UnmarshalBinary pk (take (StampSize pk) (drop 16 (visible v @ beyond v))) = Inr st
             \<longrightarrow> retrievalData_DecodeValue pk k v = Panic)
      \<and> (\<forall>e. retrievalData_DecodeValue pk k v \<noteq> Ok (e, None)))
   \<and> (length (visible v) < 8 \<longrightarrow> retrievalAccess_DecodeValue k v = Panic)
   \<and> (length (visible v) < 64 \<longrightarrow>
        pull_DecodeValue k v =
          (if cap_of v < 64 then Panic
           else Ok (zero_item\<lparr>Address := take 32 (visible v @ beyond v),
                              BatchID := take 32 (drop 32 (visible v @ beyond v))\<rparr>, None)))
   \<and> (length (visible v) \<noteq> 4 \<longrightarrow> push_DecodeValue k v = Ok (zero_item, None))
   \<and> (length (visible v) < 32 \<longrightarrow> gc_DecodeValue pk k v = Panic)
   \<and> (length (visible v) < 8 \<longrightarrow>
        (cap_of v < 8 \<longrightarrow> pin_DecodeValue k v = Panic)
        \<and> (8 \<le> cap_of v \<longrightarrow>
             (\<exists>c. Uint64 (take 8 (visible v @ beyond v)) = Ok c
                  \<and> pin_DecodeValue k v = Ok (zero_item\<lparr>PinCounter := c\<rparr>, None))))
   \<and> postageChunks_DecodeValue k v = Ok (zero_item, None)
   \<and> (length (visible v) < 32 \<longrightarrow> postageIndex_DecodeValue k v = Panic)
   \<and> (\<forall>e err. retrievalData_DecodeValue pk k v = Ok (e, Some err) \<longrightarrow>
         headerSize pk \<le> cap_of v
         \<and> UnmarshalBinary pk (take (StampSize pk) (drop 16 (visible v @ beyond v))) = Inl err)"
proof -
  have rd1: "cap_of v < headerSize pk \<longrightarrow> retrievalData_DecodeValue pk k v = Panic"
    by (simp add: retrievalData_DecodeValue_def reslice_def reslice_to_def headerSize_def
        cap_of_def Uint64_def)
  have rd2: "length (visible v) < headerSize pk \<longrightarrow>
      (\<forall>st. UnmarshalBinary pk (take (StampSize pk) (drop 16 (visible v @ beyond v))) = Inr st
             \<longrightarrow> retrievalData_DecodeValue pk k v = Panic)"
  proof (cases "cap_of v < headerSize pk")
    case True
    with rd1 show ?thesis by simp
  next
    case False
    then have "headerSize pk \<le> cap_of v" by simp
    from retrievalData_DecodeValue_unfold [OF this, of k] show ?thesis
      by auto
  qed
  have rd3: "length (visible v) < headerSize pk \<longrightarrow>
      (\<forall>e. retrievalData_DecodeValue pk k v \<noteq> Ok (e, None))"
  proof (cases "cap_of v < headerSize pk")
    case True
    with rd1 show ?thesis by simp
  next
    case False
    then have "headerSize pk \<le> cap_of v" by simp
    from retrievalData_DecodeValue_unfold [OF this, of k] obtain ts bin
      where eq: "retrievalData_DecodeValue pk k v =
        (case UnmarshalBinary pk (take (StampSize pk) (drop 16 (visible v @ beyond v))) of
           Inl err \<Rightarrow> Ok (zero_item\<lparr>StoreTimestamp := ts, BinID := bin\<rparr>, Some err)
         | Inr st \<Rightarrow>
             if headerSize pk \<le> length (visible v)
             then Ok (zero_item\<lparr>StoreTimestamp := ts, BinID := bin, BatchID := stampBatchID st,
                        Index := stampIndex st, Timestamp := stampTimestamp st, Sig := stampSig st,
                        Location := drop (headerSize pk) (visible v)\<rparr>, None)
             else Panic)"
      by blast
    show ?thesis
    proof (cases "UnmarshalBinary pk (take (StampSize pk) (drop 16 (visible v @ beyond v)))")
      case (Inl err)
      with eq show ?thesis by simp
    next
      case (Inr st)
      with eq show ?thesis by simp
    qed
  qed
  have ra: "length (visible v) < 8 \<longrightarrow> retrievalAccess_DecodeValue k v = Panic"
    by (simp add: retrievalAccess_DecodeValue_def Uint64_def)
  have pl: "length (visible v) < 64 \<longrightarrow>
        pull_DecodeValue k v =
          (if cap_of v < 64 then Panic
           else Ok (zero_item\<lparr>Address := take 32 (visible v @ beyond v),
                              BatchID := take 32 (drop 32 (visible v @ beyond v))\<rparr>, None))"
    by (simp add: pull_DecodeValue_def reslice_def reslice_to_def cap_of_def)
  have ps: "length (visible v) \<noteq> 4 \<longrightarrow> push_DecodeValue k v = Ok (zero_item, None)"
    by (simp add: push_DecodeValue_def)
  have gc: "length (visible v) < 32 \<longrightarrow> gc_DecodeValue pk k v = Panic"
    by (simp add: gc_DecodeValue_def reslice_def reslice_to_def reslice_from_def cap_of_def)
  have pn1: "cap_of v < 8 \<longrightarrow> pin_DecodeValue k v = Panic"
    by (simp add: pin_DecodeValue_def reslice_def reslice_to_def cap_of_def)
  have pn2: "8 \<le> cap_of v \<longrightarrow>
             (\<exists>c. Uint64 (take 8 (visible v @ beyond v)) = Ok c
                  \<and> pin_DecodeValue k v = Ok (zero_item\<lparr>PinCounter := c\<rparr>, None))"
  proof
    assume a: "8 \<le> cap_of v"
    then have "8 \<le> length (visible v @ beyond v)" by (simp add: cap_of_def)
    then obtain c where c: "Uint64 (take 8 (visible v @ beyond v)) = Ok c"
      using Uint64_take8 by blast
    with a have "pin_DecodeValue k v = Ok (zero_item\<lparr>PinCounter := c\<rparr>, None)"
      by (simp add: pin_DecodeValue_def reslice_def reslice_to_def)
    with c show "\<exists>c. Uint64 (take 8 (visible v @ beyond v)) = Ok c
                  \<and> pin_DecodeValue k v = Ok (zero_item\<lparr>PinCounter := c\<rparr>, None)"
      by blast
  qed
  have pc: "postageChunks_DecodeValue k v = Ok (zero_item, None)"
    by (simp add: postageChunks_DecodeValue_def)
  have pi: "length (visible v) < 32 \<longrightarrow> postageIndex_DecodeValue k v = Panic"
    by (simp add: postageIndex_DecodeValue_def reslice_def reslice_to_def reslice_from_def cap_of_def)
  have er: "\<forall>e err. retrievalData_DecodeValue pk k v = Ok (e, Some err) \<longrightarrow>
         headerSize pk \<le> cap_of v
         \<and> UnmarshalBinary pk (take (StampSize pk) (drop 16 (visible v @ beyond v))) = Inl err"
  proof (intro allI impI)
    fix e err
    assume a: "retrievalData_DecodeValue pk k v = Ok (e, Some err)"
    show "headerSize pk \<le> cap_of v
         \<and> UnmarshalBinary pk (take (StampSize pk) (drop 16 (visible v @ beyond v))) = Inl err"
    proof (cases "cap_of v < headerSize pk")
      case True
      with rd1 a show ?thesis by simp
    next
      case False
      then have c: "headerSize pk \<le> cap_of v" by simp
      from retrievalData_DecodeValue_unfold [OF c, of k] obtain ts bin
        where eq: "retrievalData_DecodeValue pk k v =
          (case UnmarshalBinary pk (take (StampSize pk) (drop 16 (visible v @ beyond v))) of
             Inl err \<Rightarrow> Ok (zero_item\<lparr>StoreTimestamp := ts, BinID := bin\<rparr>, Some err)
           | Inr st \<Rightarrow>
               if headerSize pk \<le> length (visible v)
               then Ok (zero_item\<lparr>StoreTimestamp := ts, BinID := bin, BatchID := stampBatchID st,
                          Index := stampIndex st, Timestamp := stampTimestamp st, Sig := stampSig st,
                          Location := drop (headerSize pk) (visible v)\<rparr>, None)
               else Panic)"
        by blast
      show ?thesis
      proof (cases "UnmarshalBinary pk (take (StampSize pk) (drop 16 (visible v @ beyond v)))")
        case (Inl err')
        with eq a c show ?thesis by simp
      next
        case (Inr st)
        with eq a c show ?thesis by (simp split: if_splits)
      qed
    qed
  qed
  from rd1 rd2 rd3 ra pl ps gc pn1 pn2 pc pi er show ?thesis
    by blast
qed

theorem value_decoding_short_input_witness:
  "length (visible short_value) < headerSize ex_postage_strict
   \<and> cap_of short_value < headerSize ex_postage_strict
   \<and> retrievalData_DecodeValue ex_postage_strict zero_item short_value = Panic
   \<and> length (visible short_value_spare) < 8 \<and> 8 \<le> cap_of short_value_spare
   \<and> pin_DecodeValue zero_item short_value_spare
       = Ok (zero_item\<lparr>PinCounter := 72623859790382856\<rparr>, None)
   \<and> cap_of short_value < 8
   \<and> pin_DecodeValue zero_item short_value = Panic
   \<and> retrievalAccess_DecodeValue zero_item short_value_spare = Panic
   \<and> length (visible short_value) \<noteq> 4
   \<and> push_DecodeValue zero_item short_value = Ok (zero_item, None)
   \<and> retrievalData_DecodeValue ex_postage_strict zero_item short_bad_stamp_value =
       Ok (zero_item, Some ''invalid stamp'')
   \<and> headerSize ex_postage_strict \<le> cap_of short_bad_stamp_value"
proof -
  have h: "length (visible short_value) < headerSize ex_postage_strict"
    "cap_of short_value < headerSize ex_postage_strict"
    "length (visible short_value_spare) < 8" "8 \<le> cap_of short_value_spare"
    "cap_of short_value < 8" "length (visible short_value) < 8"
    "length (visible short_value) \<noteq> 4"
    by code_simp+
  have u: "Uint64 (take 8 (visible short_value_spare @ beyond short_value_spare))
           = Ok 72623859790382856"
    by code_simp
  have d: "retrievalData_DecodeValue ex_postage_strict zero_item short_bad_stamp_value =
       Ok (zero_item, Some ''invalid stamp'')"
    by code_simp
  from value_decoding_short_input [of short_value ex_postage_strict zero_item] h
  have 1: "retrievalData_DecodeValue ex_postage_strict zero_item short_value = Panic"
    and 2: "pin_DecodeValue zero_item short_value = Panic"
    and 3: "push_DecodeValue zero_item short_value = Ok (zero_item, None)"
    by blast+
  from value_decoding_short_input [of short_value_spare ex_postage_strict zero_item] h u
  have 4: "pin_DecodeValue zero_item short_value_spare
       = Ok (zero_item\<lparr>PinCounter := 72623859790382856\<rparr>, None)"
    and 5: "retrievalAccess_DecodeValue zero_item short_value_spare = Panic"
    by auto
  from value_decoding_short_input [of short_bad_stamp_value ex_postage_strict zero_item] d
  have 6: "headerSize ex_postage_strict \<le> cap_of short_bad_stamp_value"
    by blast
  from h 1 2 3 4 5 6 d show ?thesis
    by blast
qed

text \<open>A value of three bytes: the pin decoder panics on it when it has no spare
  capacity and returns a pin counter made of foreign bytes, with no error, when it has six
  spare bytes; the retrievalData decoder panics on it with or without spare capacity; the
  retrievalAccess decoder panics; the push decoder returns the zero record.\<close>

theorem value_decoding_counterexample:
  "pin_DecodeValue zero_item short_value = Panic
   \<and> pin_DecodeValue zero_item short_value_spare
       = Ok (zero_item\<lparr>PinCounter := 72623859790382856\<rparr>, None)
   \<and> retrievalData_DecodeValue ex_postage zero_item short_value = Panic
   \<and> retrievalData_DecodeValue ex_postage zero_item
        \<lparr>visible = [1, 2, 3], beyond = replicate 200 0\<rparr> = Panic
   \<and> retrievalAccess_DecodeValue zero_item short_value = Panic
   \<and> retrievalAccess_DecodeValue zero_item short_value_spare = Panic
   \<and> push_DecodeValue zero_item short_value = Ok (zero_item, None)"
  by code_simp

section \<open>Effects on the store\<close>

text \<open>
  Claim C8, as amended. For the entire run, every call the program makes on the store is
  a call that opens the store or binds a field or an index, a read, or the final
  \<open>Close\<close>: it never puts, deletes or sets an index entry or a counter, and never
  writes or releases a blob. When start-up succeeds the calls are exactly the fourteen
  opening and binding calls with the read of the schema name, then the operations of
  the audit, all of them reads (iterations, point lookups in the primary index, the two
  counter reads, the count, and one blob read for each primary record whose location
  decodes), then \<open>Close\<close>. The program's own code leaves every existing file as it
  is. It is not read-only, though: the files of the blob store are opened through
  \<open>dirFS.Open\<close> with \<open>O_RDWR|O_CREATE\<close>, so each file the blob store asks for that
  does not exist is created, empty, with mode 0644 less the umask; no other path changes.
\<close>

theorem run_operations:
  "(\<forall>c \<in> set (calls (main w path)).
      (\<exists>op. c = Opening op) \<or> (\<exists>op. c = OnStore op \<and> is_read op) \<or> c = Closing)
   \<and> (startup_ok w path \<longrightarrow>
        calls (main w path) =
          [Opening (NewDB path), Opening SharkyNew, Opening (NewStringField ''schema-name''),
           OnStore (OpGet ''schema-name''),
           Opening (NewUint64Field ''gc-size''), Opening (NewUint64Field ''reserve-size''),
           Opening (NewIndex ''Address->StoreTimestamp|BinID|BatchID|BatchIndex|Sig|Location''),
           Opening (NewIndex ''Address->AccessTimestamp''),
           Opening (NewIndex ''PO|BinID->Hash''),
           Opening (NewIndex ''StoreTimestamp|Hash->Tags''),
           Opening (NewIndex ''AccessTimestamp|BinID|Hash->BatchID|BatchIndex''),
           Opening (NewIndex ''Hash->PinCounter''),
           Opening (NewIndex ''BatchID|PO|Hash->nil''),
           Opening (NewIndex ''BatchID|BatchIndex->Hash|Timestamp'')]
          @ map OnStore (oplog (audit (opened_store w))) @ [Closing])
   \<and> oplog (audit st) =
        concat (map (\<lambda>(src, srcStr).
                  OpIterate src # map (\<lambda>it. OpHas RetrievalData (Address it))
                                     (fst (iterate_result st src)))
                 secondary_indexes)
        @ [OpGet ''gc-size'', OpGet ''reserve-size'', OpCount RetrievalData, OpIterate RetrievalData]
        @ concat (map (\<lambda>it. case LocationFromBinary st (Location it) of
                               Inl err \<Rightarrow> [] | Inr l \<Rightarrow> [OpRead l])
                   (fst (iterate_result st RetrievalData)))
   \<and> (\<forall>p f. files (os_before w) p = Some f \<longrightarrow> files (os_after (main w path)) p = Some f)
   \<and> (\<forall>p. files (os_after (main w path)) p \<noteq> files (os_before w) p \<longrightarrow>
         files (os_before w) p = None
         \<and> p \<in> set (map (filepath_Join (filepath_Join path ''sharky'')) (sharky_files w))
         \<and> files (os_after (main w path)) p
             = Some \<lparr>file_content = [], file_mode = 420 AND NOT (umask (os_before w))\<rparr>)
   \<and> (files os (filepath_Join (basedir d) p) = None \<and> permitted os (filepath_Join (basedir d) p)
       \<longrightarrow> files (snd (dirFS_Open d p os)) (filepath_Join (basedir d) p)
             = Some \<lparr>file_content = [], file_mode = 420 AND NOT (umask os)\<rparr>
           \<and> fst (dirFS_Open d p os)
               = Inr \<lparr>file_name = filepath_Join (basedir d) p, file_flags = [O_RDWR, O_CREATE]\<rparr>)"
proof -
  have 1: "\<forall>c \<in> set (calls (main w path)).
      (\<exists>op. c = Opening op) \<or> (\<exists>op. c = OnStore op \<and> is_read op) \<or> c = Closing"
    using after_NewDB_calls [of w path]
    by (auto simp add: main_def Let_def split: option.splits)
  have 2: "startup_ok w path \<longrightarrow>
        calls (main w path) =
          [Opening (NewDB path), Opening SharkyNew, Opening (NewStringField ''schema-name''),
           OnStore (OpGet ''schema-name''),
           Opening (NewUint64Field ''gc-size''), Opening (NewUint64Field ''reserve-size''),
           Opening (NewIndex ''Address->StoreTimestamp|BinID|BatchID|BatchIndex|Sig|Location''),
           Opening (NewIndex ''Address->AccessTimestamp''),
           Opening (NewIndex ''PO|BinID->Hash''),
           Opening (NewIndex ''StoreTimestamp|Hash->Tags''),
           Opening (NewIndex ''AccessTimestamp|BinID|Hash->BatchID|BatchIndex''),
           Opening (NewIndex ''Hash->PinCounter''),
           Opening (NewIndex ''BatchID|PO|Hash->nil''),
           Opening (NewIndex ''BatchID|BatchIndex->Hash|Timestamp'')]
          @ map OnStore (oplog (audit (opened_store w))) @ [Closing]"
  proof
    assume "startup_ok w path"
    from main_calls_ok [OF this] show "calls (main w path) =
          [Opening (NewDB path), Opening SharkyNew, Opening (NewStringField ''schema-name''),
           OnStore (OpGet ''schema-name''),
           Opening (NewUint64Field ''gc-size''), Opening (NewUint64Field ''reserve-size''),
           Opening (NewIndex ''Address->StoreTimestamp|BinID|BatchID|BatchIndex|Sig|Location''),
           Opening (NewIndex ''Address->AccessTimestamp''),
           Opening (NewIndex ''PO|BinID->Hash''),
           Opening (NewIndex ''StoreTimestamp|Hash->Tags''),
           Opening (NewIndex ''AccessTimestamp|BinID|Hash->BatchID|BatchIndex''),
           Opening (NewIndex ''Hash->PinCounter''),
           Opening (NewIndex ''BatchID|PO|Hash->nil''),
           Opening (NewIndex ''BatchID|BatchIndex->Hash|Timestamp'')]
          @ map OnStore (oplog (audit (opened_store w))) @ [Closing]"
      by (simp add: bindings_def)
  qed
  have 3: "oplog (audit st) =
        concat (map (\<lambda>(src, srcStr).
                  OpIterate src # map (\<lambda>it. OpHas RetrievalData (Address it))
                                     (fst (iterate_result st src)))
                 secondary_indexes)
        @ [OpGet ''gc-size'', OpGet ''reserve-size'', OpCount RetrievalData, OpIterate RetrievalData]
        @ concat (map (\<lambda>it. case LocationFromBinary st (Location it) of
                               Inl err \<Rightarrow> [] | Inr l \<Rightarrow> [OpRead l])
                   (fst (iterate_result st RetrievalData)))"
    by (simp add: audit_oplog spec_referential_ops_def spec_scan_reads_def [abs_def])
  have 4: "\<forall>p f. files (os_before w) p = Some f \<longrightarrow> files (os_after (main w path)) p = Some f"
    using main_os_after [of w path] open_all_kept by auto
  have 5: "\<forall>p. files (os_after (main w path)) p \<noteq> files (os_before w) p \<longrightarrow>
         files (os_before w) p = None
         \<and> p \<in> set (map (filepath_Join (filepath_Join path ''sharky'')) (sharky_files w))
         \<and> files (os_after (main w path)) p
             = Some \<lparr>file_content = [], file_mode = 420 AND NOT (umask (os_before w))\<rparr>"
  proof (intro allI impI)
    fix p
    assume a: "files (os_after (main w path)) p \<noteq> files (os_before w) p"
    with main_os_after [of w path]
    have e: "os_after (main w path)
       = snd (open_all \<lparr>basedir = filepath_Join path ''sharky''\<rparr> (sharky_files w) (os_before w))"
      by auto
    with a have "files (snd (open_all \<lparr>basedir = filepath_Join path ''sharky''\<rparr>
                     (sharky_files w) (os_before w))) p \<noteq> files (os_before w) p"
      by simp
    from open_all_changed [OF this] e
    show "files (os_before w) p = None
         \<and> p \<in> set (map (filepath_Join (filepath_Join path ''sharky'')) (sharky_files w))
         \<and> files (os_after (main w path)) p
             = Some \<lparr>file_content = [], file_mode = 420 AND NOT (umask (os_before w))\<rparr>"
      by simp
  qed
  have 6: "files os (filepath_Join (basedir d) p) = None \<and> permitted os (filepath_Join (basedir d) p)
       \<longrightarrow> files (snd (dirFS_Open d p os)) (filepath_Join (basedir d) p)
             = Some \<lparr>file_content = [], file_mode = 420 AND NOT (umask os)\<rparr>
           \<and> fst (dirFS_Open d p os)
               = Inr \<lparr>file_name = filepath_Join (basedir d) p, file_flags = [O_RDWR, O_CREATE]\<rparr>"
    by (simp add: dirFS_Open_def os_OpenFile_def)
  from 1 2 3 4 5 6 show ?thesis
    by (intro conjI)
qed

theorem run_operations_witness:
  "startup_ok ex_world ''/data/localstore''
   \<and> calls (main ex_world ''/data/localstore'') =
       [Opening (NewDB ''/data/localstore''), Opening SharkyNew,
        Opening (NewStringField ''schema-name''), OnStore (OpGet ''schema-name''),
        Opening (NewUint64Field ''gc-size''), Opening (NewUint64Field ''reserve-size''),
        Opening (NewIndex ''Address->StoreTimestamp|BinID|BatchID|BatchIndex|Sig|Location''),
        Opening (NewIndex ''Address->AccessTimestamp''),
        Opening (NewIndex ''PO|BinID->Hash''),
        Opening (NewIndex ''StoreTimestamp|Hash->Tags''),
        Opening (NewIndex ''AccessTimestamp|BinID|Hash->BatchID|BatchIndex''),
        Opening (NewIndex ''Hash->PinCounter''),
        Opening (NewIndex ''BatchID|PO|Hash->nil''),
        Opening (NewIndex ''BatchID|BatchIndex->Hash|Timestamp'')]
       @ map OnStore (oplog (audit ex_store)) @ [Closing]
   \<and> OnStore (OpRead 1) \<in> set (calls (main ex_world ''/data/localstore''))
   \<and> files (os_before ex_world) ''/data/localstore/sharky/shard_001''
       = Some \<lparr>file_content = [1, 2, 3], file_mode = 384\<rparr>
   \<and> files (os_after (main ex_world ''/data/localstore'')) ''/data/localstore/sharky/shard_001''
       = Some \<lparr>file_content = [1, 2, 3], file_mode = 384\<rparr>
   \<and> files (os_after (main ex_world ''/data/localstore'')) ''/data/localstore/sharky/shard_000''
       \<noteq> files (os_before ex_world) ''/data/localstore/sharky/shard_000''
   \<and> files (os_after (main ex_world ''/data/localstore'')) ''/data/localstore/sharky/shard_000''
       = Some \<lparr>file_content = [], file_mode = 420 AND NOT (umask (os_before ex_world))\<rparr>
   \<and> (420 AND NOT (umask (os_before ex_world))) = 420"
proof -
  have ok: "startup_ok ex_world ''/data/localstore''"
    by code_simp
  have st: "opened_store ex_world = ex_store"
    by (simp add: ex_world_def)
  have r: "OnStore (OpRead 1) \<in> set (calls (main ex_world ''/data/localstore''))"
    by code_simp
  have k: "files (os_before ex_world) ''/data/localstore/sharky/shard_001''
       = Some \<lparr>file_content = [1, 2, 3], file_mode = 384\<rparr>"
    by code_simp
  have c: "files (os_after (main ex_world ''/data/localstore'')) ''/data/localstore/sharky/shard_000''
       \<noteq> files (os_before ex_world) ''/data/localstore/sharky/shard_000''"
    by code_simp
  have m: "(420 AND NOT (umask (os_before ex_world))) = 420"
    by code_simp
  note t = run_operations [of ex_world "''/data/localstore''" ex_store ex_os ex_dir "''shard_000''"]
  from t ok st have 1: "calls (main ex_world ''/data/localstore'') =
       [Opening (NewDB ''/data/localstore''), Opening SharkyNew,
        Opening (NewStringField ''schema-name''), OnStore (OpGet ''schema-name''),
        Opening (NewUint64Field ''gc-size''), Opening (NewUint64Field ''reserve-size''),
        Opening (NewIndex ''Address->StoreTimestamp|BinID|BatchID|BatchIndex|Sig|Location''),
        Opening (NewIndex ''Address->AccessTimestamp''),
        Opening (NewIndex ''PO|BinID->Hash''),
        Opening (NewIndex ''StoreTimestamp|Hash->Tags''),
        Opening (NewIndex ''AccessTimestamp|BinID|Hash->BatchID|BatchIndex''),
        Opening (NewIndex ''Hash->PinCounter''),
        Opening (NewIndex ''BatchID|PO|Hash->nil''),
        Opening (NewIndex ''BatchID|BatchIndex->Hash|Timestamp'')]
       @ map OnStore (oplog (audit ex_store)) @ [Closing]"
    by simp
  from t k have 2: "files (os_after (main ex_world ''/data/localstore'')) ''/data/localstore/sharky/shard_001''
       = Some \<lparr>file_content = [1, 2, 3], file_mode = 384\<rparr>"
    by blast
  from t c have 3: "files (os_after (main ex_world ''/data/localstore'')) ''/data/localstore/sharky/shard_000''
       = Some \<lparr>file_content = [], file_mode = 420 AND NOT (umask (os_before ex_world))\<rparr>"
    by blast
  from ok 1 r k 2 c 3 m show ?thesis
    by (intro conjI)
qed

text \<open>In a blob directory without \<open>shard_000\<close>, a run whose blob store asks for that
  file creates it, empty, with mode 0644 under a umask of 022.\<close>

theorem run_operations_counterexample:
  "files (os_before ex_world) ''/data/localstore/sharky/shard_000'' = None
   \<and> files (os_after (main ex_world ''/data/localstore'')) ''/data/localstore/sharky/shard_000''
       = Some \<lparr>file_content = [], file_mode = 420\<rparr>
   \<and> files ex_os ''/data/localstore/sharky/shard_000'' = None
   \<and> files (snd (dirFS_Open ex_dir ''shard_000'' ex_os)) ''/data/localstore/sharky/shard_000''
       = Some \<lparr>file_content = [], file_mode = 420\<rparr>"
  by code_simp

end
